theory Spec2Isabelle
  imports Complex_Main
begin

section \<open>Text\<close>

text \<open>
  A Python \<open>str\<close> is modelled as the list of its characters, each character the number
  of its Unicode code point, so that the length of the list is Python's \<open>len\<close> and
  \<open>take\<close> is a slice from the start. \<open>lit\<close> writes a literal of ASCII characters.
\<close>

type_synonym str = "nat list"

abbreviation lit :: "string \<Rightarrow> str" where
  "lit s \<equiv> map of_char s"

text \<open>
  \<open>c.isspace()\<close>: the white space of \<open>str.strip\<close> and \<open>str.split\<close>, that is the
  characters U+0009 to U+000D, U+001C to U+0020, U+0085, U+00A0, U+1680, U+2000 to U+200A,
  U+2028, U+2029, U+202F, U+205F and U+3000.
\<close>

definition py_isspace :: "nat \<Rightarrow> bool" where
  "py_isspace c =
     (c \<in> set [0x09, 0x0A, 0x0B, 0x0C, 0x0D, 0x1C, 0x1D, 0x1E, 0x1F, 0x20, 0x85, 0xA0,
                0x1680, 0x2000, 0x2001, 0x2002, 0x2003, 0x2004, 0x2005, 0x2006, 0x2007,
                0x2008, 0x2009, 0x200A, 0x2028, 0x2029, 0x202F, 0x205F, 0x3000])"

text \<open>\<open>s.strip()\<close>: white space removed at both ends.\<close>

definition py_strip :: "str \<Rightarrow> str" where
  "py_strip s = rev (dropWhile py_isspace (rev (dropWhile py_isspace s)))"

text \<open>\<open>s.startswith(p)\<close>\<close>

fun py_startswith :: "str \<Rightarrow> str \<Rightarrow> bool" where
  "py_startswith s [] = True"
| "py_startswith [] (p # ps) = False"
| "py_startswith (c # cs) (p # ps) = (c = p \<and> py_startswith cs ps)"

text \<open>\<open>sub in s\<close> for two texts: \<open>sub\<close> occurs in \<open>s\<close> as a contiguous piece.\<close>

fun py_substring :: "str \<Rightarrow> str \<Rightarrow> bool" where
  "py_substring sub [] = (sub = [])"
| "py_substring sub (c # cs) = (py_startswith (c # cs) sub \<or> py_substring sub cs)"

text \<open>
  \<open>s.split()\<close>: the maximal pieces of \<open>s\<close> free of white space, in order. The loop
  carries the piece being read (\<open>cur\<close>) and emits it at the next white space.
\<close>

fun split_loop :: "str \<Rightarrow> str \<Rightarrow> str list" where
  "split_loop cur [] = (if cur = [] then [] else [cur])"
| "split_loop cur (c # cs) =
     (if py_isspace c then (if cur = [] then split_loop [] cs else cur # split_loop [] cs)
      else split_loop (cur @ [c]) cs)"

definition py_split :: "str \<Rightarrow> str list" where
  "py_split s = split_loop [] s"

text \<open>\<open>sep.join(xs)\<close>\<close>

fun py_join :: "str \<Rightarrow> str list \<Rightarrow> str" where
  "py_join sep [] = []"
| "py_join sep [x] = x"
| "py_join sep (x # y # ys) = x @ sep @ py_join sep (y # ys)"

text \<open>
  \<open>s.replace(old, new)\<close>: every occurrence of \<open>old\<close>, read from the left without
  overlap, becomes \<open>new\<close>. With an empty \<open>old\<close> Python puts \<open>new\<close> before every
  character and at the end.
\<close>

function py_replace :: "str \<Rightarrow> str \<Rightarrow> str \<Rightarrow> str" where
  "py_replace old new s =
     (if old = [] then new @ concat (map (\<lambda>c. c # new) s)
      else if s = [] then []
      else if py_startswith s old then new @ py_replace old new (drop (length old) s)
      else hd s # py_replace old new (tl s))"
  by pat_completeness auto
termination
  by (relation "measure (\<lambda>(old, new, s). length s)") auto

section \<open>Values of the JSON layer, and Python's errors\<close>

text \<open>
  Request bodies are the dictionaries the source builds, and response bodies are what
  \<open>response.json()\<close> returns: \<open>None\<close>, booleans, numbers, text, lists and dictionaries
  with text keys. A dictionary is the list of its entries in insertion order, keys distinct.
\<close>

datatype json =
    JNull
  | JBool bool
  | JNum rat
  | JStr str
  | JArr "json list"
  | JObj "(str \<times> json) list"

text \<open>
  The exceptions of the program: those of \<open>requests\<close>, Python's own, the two of the
  \<open>rich\<close> library (a markup text with a closing tag that closes nothing, a value that
  cannot be drawn), and \<open>Exception(message)\<close> as the source raises it.
\<close>

datatype error =
    HTTPError nat
  | ConnectionError
  | JSONDecodeError
  | KeyError
  | IndexError
  | TypeError
  | AttributeError
  | MarkupError
  | NotRenderableError
  | Exception str

text \<open>Sequencing of a computation that may raise: the first error ends it.\<close>

definition and_then :: "error + 'a \<Rightarrow> ('a \<Rightarrow> error + 'b) \<Rightarrow> error + 'b" where
  "and_then r f = (case r of Inl e \<Rightarrow> Inl e | Inr v \<Rightarrow> f v)"

text \<open>\<open>v[k]\<close> for a text key \<open>k\<close>: only a dictionary can be read this way.\<close>

fun getitem_key :: "json \<Rightarrow> str \<Rightarrow> error + json" where
  "getitem_key (JObj kvs) k = (case map_of kvs k of None \<Rightarrow> Inl KeyError | Some v \<Rightarrow> Inr v)"
| "getitem_key (JArr xs) k = Inl TypeError"
| "getitem_key (JStr s) k = Inl TypeError"
| "getitem_key (JNum n) k = Inl TypeError"
| "getitem_key (JBool b) k = Inl TypeError"
| "getitem_key JNull k = Inl TypeError"

text \<open>
  \<open>v[0]\<close>: the first element of a list or the first character of a text (IndexError
  when empty); a dictionary of the JSON layer has no key \<open>0\<close> (KeyError); the rest cannot be
  subscripted.
\<close>

fun getitem_0 :: "json \<Rightarrow> error + json" where
  "getitem_0 (JArr []) = Inl IndexError"
| "getitem_0 (JArr (x # xs)) = Inr x"
| "getitem_0 (JStr []) = Inl IndexError"
| "getitem_0 (JStr (c # cs)) = Inr (JStr [c])"
| "getitem_0 (JObj kvs) = Inl KeyError"
| "getitem_0 (JNum n) = Inl TypeError"
| "getitem_0 (JBool b) = Inl TypeError"
| "getitem_0 JNull = Inl TypeError"

text \<open>
  \<open>k in v\<close> for a text \<open>k\<close>: a key of a dictionary, an element of a list, a piece of a
  text; the rest is not iterable.
\<close>

fun py_in :: "str \<Rightarrow> json \<Rightarrow> error + bool" where
  "py_in k (JObj kvs) = Inr (k \<in> set (map fst kvs))"
| "py_in k (JArr xs) = Inr (JStr k \<in> set xs)"
| "py_in k (JStr s) = Inr (py_substring k s)"
| "py_in k (JNum n) = Inl TypeError"
| "py_in k (JBool b) = Inl TypeError"
| "py_in k JNull = Inl TypeError"

text \<open>\<open>v.get(k, d)\<close>: a method of dictionaries only.\<close>

fun py_get :: "json \<Rightarrow> str \<Rightarrow> json \<Rightarrow> error + json" where
  "py_get (JObj kvs) k d = (case map_of kvs k of None \<Rightarrow> Inr d | Some v \<Rightarrow> Inr v)"
| "py_get (JArr xs) k d = Inl AttributeError"
| "py_get (JStr s) k d = Inl AttributeError"
| "py_get (JNum n) k d = Inl AttributeError"
| "py_get (JBool b) k d = Inl AttributeError"
| "py_get JNull k d = Inl AttributeError"

text \<open>
  \<open>str(v)\<close>, also what an f-string puts for \<open>{v}\<close>: a text is itself; for every other
  value it is Python's built-in rendering, which the model takes as the parameter
  \<open>py_repr\<close>.
\<close>

fun py_str :: "(json \<Rightarrow> str) \<Rightarrow> json \<Rightarrow> str" where
  "py_str py_repr (JStr s) = s"
| "py_str py_repr v = py_repr v"

text \<open>
  The truth value of a value, as in \<open>if system_message:\<close>: \<open>None\<close>, \<open>False\<close>, zero and
  the empty text, list and dictionary are false.
\<close>

fun py_truthy :: "json \<Rightarrow> bool" where
  "py_truthy JNull = False"
| "py_truthy (JBool b) = b"
| "py_truthy (JNum n) = (n \<noteq> 0)"
| "py_truthy (JStr s) = (s \<noteq> [])"
| "py_truthy (JArr xs) = (xs \<noteq> [])"
| "py_truthy (JObj kvs) = (kvs \<noteq> [])"

section \<open>What the libraries do\<close>

text \<open>
  Some behaviour of Python and of the \<open>rich\<close> library is not written out but taken as a
  parameter of the model, the record \<open>lib\<close>:
  \<^item> \<open>str_lower\<close> and \<open>str_capitalize\<close> are \<open>str.lower()\<close> and \<open>str.capitalize()\<close>, which
    follow the Unicode tables;
  \<^item> \<open>exception_str\<close> is \<open>str(e)\<close> for the exceptions whose text a library makes;
  \<^item> \<open>markup_error\<close> tells whether \<open>rich\<close> raises \<open>MarkupError\<close> when it draws a text as
    console markup (the text of \<open>console.print\<close>, of a \<open>Panel\<close>, of a table cell): it does
    for a closing tag such as \<open>[/x]\<close> that matches no open tag;
  \<^item> \<open>markdown_error\<close> is the exception \<open>Markdown(v)\<close> raises for a value that is not
    text;
  \<^item> \<open>history_error\<close> is the exception that \<open>len(content)\<close>, the cut
    \<open>content[:97] + "..."\<close> or \<open>table.add_row\<close> raises in \<open>show_history\<close> for a content
    that is not text.
  What \<open>rich\<close> draws on the terminal for a text it accepts (styles, line breaks, the
  width of the terminal) is not modelled: the console output of the model is what the
  program hands to the console.
\<close>

record lib =
  str_lower :: "str \<Rightarrow> str"
  str_capitalize :: "str \<Rightarrow> str"
  exception_str :: "error \<Rightarrow> str"
  markup_error :: "str \<Rightarrow> bool"
  markdown_error :: "json \<Rightarrow> error"
  history_error :: "json \<Rightarrow> error"

text \<open>\<open>str(e)\<close>: the message of an \<open>Exception(message)\<close> raised by the source is itself.\<close>

fun py_exception_str :: "lib \<Rightarrow> error \<Rightarrow> str" where
  "py_exception_str l (Exception message) = message"
| "py_exception_str l e = exception_str l e"

section \<open>Messages and the transcript\<close>

text \<open>
  A message is the dictionary \<open>{"role": ..., "content": ...}\<close>. The role is a text. The
  content is whatever was stored: the line the user typed, a text, or the value
  \<open>get_response\<close> returned, which is the value found at the reply position of the response
  and need not be text. The transcript is \<open>chat_history\<close>, a list of messages in the order
  they were appended.
\<close>

record message =
  role :: str
  content :: json

section \<open>commands.py: the history display\<close>

text \<open>
  What the program hands to the console: a text printed as console markup, a panel around
  such a text, a panel around a table of cells of such texts, the panel of
  \<open>format_ai_response\<close> around a Markdown text, or the clearing of the screen.
\<close>

datatype console_out =
    Print str
  | Panel str
  | Panel_table "(str \<times> str) list"
  | Markdown_panel str
  | Clear_screen

text \<open>
  The message cell of a row of the history table: a content of more than 100 characters is
  cut to its first 97 characters and \<open>...\<close>.
\<close>

definition history_cell :: "str \<Rightarrow> str" where
  "history_cell content0 =
     (if length content0 > 100 then take 97 content0 @ lit ''...'' else content0)"

text \<open>
  One pass of the loop of \<open>show_history\<close>: the row added for a message, the role cell with
  its style markup and the message cell. For a content that is not text the pass raises.
\<close>

definition history_row :: "lib \<Rightarrow> message \<Rightarrow> error + (str \<times> str)" where
  "history_row l message =
     (case content message of
        JStr content0 \<Rightarrow>
          let role_style = (if role message = lit ''user'' then lit ''green'' else lit ''purple'')
          in Inr (lit ''['' @ role_style @ lit '']'' @ str_capitalize l (role message)
                    @ lit ''[/'' @ role_style @ lit '']'',
                  history_cell content0)
      | v \<Rightarrow> Inl (history_error l v))"

fun add_rows :: "lib \<Rightarrow> (str \<times> str) list \<Rightarrow> message list \<Rightarrow> error + (str \<times> str) list" where
  "add_rows l table [] = Inr table"
| "add_rows l table (message # rest) =
     and_then (history_row l message) (\<lambda>row. add_rows l (table @ [row]) rest)"

text \<open>
  \<open>show_history\<close> returns what it hands to the console, or the exception it raises,
  together with the transcript it leaves behind. The table is drawn when it is printed:
  the print raises if a cell is a markup text that \<open>rich\<close> does not accept.
\<close>

definition show_history :: "lib \<Rightarrow> message list \<Rightarrow> (error + console_out) \<times> message list" where
  "show_history l chat_history =
     (if chat_history = [] then (Inr (Panel (lit ''No chat history yet.'')), chat_history)
      else
        (and_then (add_rows l [] chat_history) (\<lambda>table.
           if list_ex (\<lambda>(role_cell, cell). markup_error l role_cell \<or> markup_error l cell) table
           then Inl MarkupError
           else Inr (Panel_table table)),
         chat_history))"

section \<open>Request bodies\<close>

text \<open>A message as it is put into a request body.\<close>

definition message_json :: "message \<Rightarrow> json" where
  "message_json msg = JObj [(lit ''role'', JStr (role msg)), (lit ''content'', content msg)]"

text \<open>\<open>d[k] = v\<close> on the entries of a dictionary.\<close>

definition setitem :: "(str \<times> json) list \<Rightarrow> str \<Rightarrow> json \<Rightarrow> (str \<times> json) list" where
  "setitem kvs k v =
     (if k \<in> set (map fst kvs) then map (\<lambda>(k', v'). if k' = k then (k', v) else (k', v')) kvs
      else kvs @ [(k, v)])"

section \<open>env_manager.py: the provider table\<close>

record provider =
  name :: str
  env_key :: str
  api_url :: str
  model :: str

text \<open>
  The configuration \<open>get_active_provider\<close> returns: a copy of the table entry with the
  saved model and the entry \<open>api_key\<close> added.
\<close>

record provider_config = provider +
  api_key :: str

definition LLM_PROVIDERS :: "(str \<times> provider) list" where
  "LLM_PROVIDERS =
     [(lit ''1'', \<lparr>name = lit ''Google (Gemini)'', env_key = lit ''GOOGLE_API_KEY'',
              api_url = lit ''https://generativelanguage.googleapis.com/v1beta/models/'',
              model = lit ''gemini-2.5-pro''\<rparr>),
      (lit ''2'', \<lparr>name = lit ''OpenRouter'', env_key = lit ''OPENROUTER_API_KEY'',
              api_url = lit ''https://openrouter.ai/api/v1/chat/completions'',
              model = lit ''openai/gpt-oss-20b:free''\<rparr>),
      (lit ''3'', \<lparr>name = lit ''OpenAI'', env_key = lit ''OPENAI_API_KEY'',
              api_url = lit ''https://api.openai.com/v1/chat/completions'',
              model = lit ''gpt-3.5-turbo''\<rparr>),
      (lit ''4'', \<lparr>name = lit ''Anthropic (Claude)'', env_key = lit ''ANTHROPIC_API_KEY'',
              api_url = lit ''https://api.anthropic.com/v1/messages'',
              model = lit ''claude-3-sonnet-20240229''\<rparr>),
      (lit ''5'', \<lparr>name = lit ''xAI (Grok)'', env_key = lit ''XAI_API_KEY'',
              api_url = lit ''https://api.x.ai/v1/chat/completions'',
              model = lit ''grok-beta''\<rparr>),
      (lit ''6'', \<lparr>name = lit ''DeepSeek'', env_key = lit ''DEEPSEEK_API_KEY'',
              api_url = lit ''https://api.deepseek.com/v1/chat/completions'',
              model = lit ''deepseek-chat''\<rparr>),
      (lit ''7'', \<lparr>name = lit ''Qwen'', env_key = lit ''QWEN_API_KEY'',
              api_url = lit ''https://dashscope.aliyuncs.com/api/v1/services/aigc/text-generation/generation'',
              model = lit ''qwen-turbo''\<rparr>),
      (lit ''8'', \<lparr>name = lit ''HuggingFace'', env_key = lit ''HUGGINGFACE_API_KEY'',
              api_url = lit ''https://api-inference.huggingface.co/models/'',
              model = lit ''mistralai/Mistral-7B-Instruct-v0.2''\<rparr>)]"

section \<open>openrouter.py: the client\<close>

text \<open>
  The HTTP layer. \<open>requests.post\<close> is the parameter \<open>post\<close> of the model: it answers a
  request with a response or raises. \<open>json_body\<close> is \<open>None\<close> when the body of the
  response is not JSON, and \<open>response.json()\<close> raises then.
\<close>

record http_request =
  url :: str
  headers :: "(str \<times> str) list"
  payload :: json

record http_response =
  status_code :: nat
  json_body :: "json option"

type_synonym http_post = "http_request \<Rightarrow> error + http_response"

text \<open>\<open>response.raise_for_status()\<close>: the statuses 400 to 599 raise.\<close>

definition raise_for_status :: "http_response \<Rightarrow> error + unit" where
  "raise_for_status response =
     (if 400 \<le> status_code response \<and> status_code response < 600
      then Inl (HTTPError (status_code response)) else Inr ())"

definition response_json :: "http_response \<Rightarrow> error + json" where
  "response_json response =
     (case json_body response of None \<Rightarrow> Inl JSONDecodeError | Some data \<Rightarrow> Inr data)"

text \<open>
  The client object keeps \<open>provider_name\<close>, \<open>api_key\<close>, \<open>base_url\<close> and \<open>model\<close>, copied
  from the entries \<open>name\<close>, \<open>api_key\<close>, \<open>api_url\<close> and \<open>model\<close> of the configuration it is
  built from; the model reads them from the configuration, written \<open>self\<close>, and computes
  the headers of \<open>_setup_headers\<close> from it.
\<close>

definition setup_headers :: "provider_config \<Rightarrow> (str \<times> str) list" where
  "setup_headers self =
     (if py_substring (lit ''OpenRouter'') (name self) then
        [(lit ''Authorization'', lit ''Bearer '' @ api_key self),
         (lit ''Content-Type'', lit ''application/json''),
         (lit ''HTTP-Referer'', lit ''https://github.com/termchat''),
         (lit ''X-Title'', lit ''TermChat'')]
      else if py_substring (lit ''Anthropic'') (name self) then
        [(lit ''x-api-key'', api_key self),
         (lit ''Content-Type'', lit ''application/json''),
         (lit ''anthropic-version'', lit ''2023-06-01'')]
      else if py_substring (lit ''HuggingFace'') (name self) then
        [(lit ''Authorization'', lit ''Bearer '' @ api_key self),
         (lit ''Content-Type'', lit ''application/json'')]
      else
        [(lit ''Authorization'', lit ''Bearer '' @ api_key self),
         (lit ''Content-Type'', lit ''application/json'')])"

text \<open>
  A call of \<open>requests.post\<close> is an effect: the model keeps the list \<open>sent\<close> of the
  requests made so far, and a call appends its request to it.
\<close>

definition requests_post ::
  "http_post \<Rightarrow> http_request \<Rightarrow> http_request list
     \<Rightarrow> (error + http_response) \<times> http_request list" where
  "requests_post post request sent = (post request, sent @ [request])"

text \<open>
  What every family does with the answer of \<open>post\<close>: \<open>raise_for_status\<close>, then
  \<open>response.json()\<close>, then the extraction of the reply from the data.
\<close>

definition checked_json :: "error + http_response \<Rightarrow> error + json" where
  "checked_json r =
     and_then r (\<lambda>response.
       and_then (raise_for_status response) (\<lambda>u. response_json response))"

subsection \<open>OpenAI-compatible providers\<close>

definition openai_payload :: "provider_config \<Rightarrow> message list \<Rightarrow> json" where
  "openai_payload self messages =
     JObj [(lit ''model'', JStr (model self)), (lit ''messages'', JArr (map message_json messages))]"

definition openai_extract :: "json \<Rightarrow> error + json" where
  "openai_extract data =
     and_then (getitem_key data (lit ''choices'')) (\<lambda>choices.
     and_then (getitem_0 choices) (\<lambda>choice.
     and_then (getitem_key choice (lit ''message'')) (\<lambda>m.
     getitem_key m (lit ''content''))))"

definition get_openai_compatible_response ::
  "provider_config \<Rightarrow> http_post \<Rightarrow> message list \<Rightarrow> http_request list
     \<Rightarrow> (error + json) \<times> http_request list" where
  "get_openai_compatible_response self post messages sent =
     (let (response, sent') =
            requests_post post \<lparr>url = api_url self, headers = setup_headers self,
                                payload = openai_payload self messages\<rparr> sent
      in (and_then (checked_json response) openai_extract, sent'))"

subsection \<open>Anthropic\<close>

text \<open>
  The loop over the messages: a system message overwrites \<open>system_message\<close>, every other
  message is appended to \<open>user_messages\<close>.
\<close>

fun anthropic_loop :: "json \<Rightarrow> json list \<Rightarrow> message list \<Rightarrow> json \<times> json list" where
  "anthropic_loop system_message user_messages [] = (system_message, user_messages)"
| "anthropic_loop system_message user_messages (msg # msgs) =
     (if role msg = lit ''system'' then anthropic_loop (content msg) user_messages msgs
      else anthropic_loop system_message
             (user_messages @ [JObj [(lit ''role'', JStr (role msg)),
                                     (lit ''content'', content msg)]])
             msgs)"

definition anthropic_payload :: "provider_config \<Rightarrow> message list \<Rightarrow> (str \<times> json) list" where
  "anthropic_payload self messages =
     (let (system_message, user_messages) = anthropic_loop (JStr []) [] messages;
          payload0 = [(lit ''model'', JStr (model self)),
                      (lit ''messages'', JArr user_messages),
                      (lit ''max_tokens'', JNum 4096)]
      in if py_truthy system_message then setitem payload0 (lit ''system'') system_message
         else payload0)"

definition anthropic_extract :: "json \<Rightarrow> error + json" where
  "anthropic_extract data =
     and_then (getitem_key data (lit ''content'')) (\<lambda>c.
     and_then (getitem_0 c) (\<lambda>c0.
     getitem_key c0 (lit ''text'')))"

definition get_anthropic_response ::
  "provider_config \<Rightarrow> http_post \<Rightarrow> message list \<Rightarrow> http_request list
     \<Rightarrow> (error + json) \<times> http_request list" where
  "get_anthropic_response self post messages sent =
     (let (response, sent') =
            requests_post post \<lparr>url = api_url self, headers = setup_headers self,
                                payload = JObj (anthropic_payload self messages)\<rparr> sent
      in (and_then (checked_json response) anthropic_extract, sent'))"

subsection \<open>Google\<close>

text \<open>
  The loop of \<open>_get_google_response\<close> that builds \<open>contents\<close>: one entry is appended per
  message.
\<close>

fun google_contents :: "json list \<Rightarrow> message list \<Rightarrow> json list" where
  "google_contents contents [] = contents"
| "google_contents contents (msg # msgs) =
     (let role' = (if role msg = lit ''user'' then lit ''user'' else lit ''model'')
      in google_contents
           (contents @ [JObj [(lit ''role'', JStr role'),
                              (lit ''parts'', JArr [JObj [(lit ''text'', content msg)]])]])
           msgs)"

definition google_url :: "provider_config \<Rightarrow> str" where
  "google_url self =
     lit ''https://generativelanguage.googleapis.com/v1beta/models/'' @ model self
       @ lit '':generateContent?key='' @ api_key self"

definition google_payload :: "message list \<Rightarrow> json" where
  "google_payload messages = JObj [(lit ''contents'', JArr (google_contents [] messages))]"

text \<open>The reply position \<open>data["candidates"][0]["content"]["parts"][0]["text"]\<close>.\<close>

definition google_reply_path :: "json \<Rightarrow> error + json" where
  "google_reply_path data =
     and_then (getitem_key data (lit ''candidates'')) (\<lambda>cands.
     and_then (getitem_0 cands) (\<lambda>cand.
     and_then (getitem_key cand (lit ''content'')) (\<lambda>c.
     and_then (getitem_key c (lit ''parts'')) (\<lambda>parts.
     and_then (getitem_0 parts) (\<lambda>part.
     getitem_key part (lit ''text''))))))"

text \<open>
  The \<open>try\<close> around the reply position: only KeyError and IndexError are caught; the
  handler raises the provider's error message when the data has an entry \<open>error\<close>, and
  the unexpected-format error otherwise. Every other error of the \<open>try\<close> block, and every
  error of the handler itself, goes to the caller as it is.
\<close>

definition google_extract :: "(json \<Rightarrow> str) \<Rightarrow> json \<Rightarrow> error + json" where
  "google_extract py_repr data =
     (case google_reply_path data of
        Inr text \<Rightarrow> Inr text
      | Inl e \<Rightarrow>
          if e = KeyError \<or> e = IndexError then
            and_then (py_in (lit ''error'') data) (\<lambda>has_error.
              if has_error then
                and_then (getitem_key data (lit ''error'')) (\<lambda>err.
                and_then (py_get err (lit ''message'') (JStr (py_str py_repr err))) (\<lambda>m.
                Inl (Exception (lit ''Google API Error: '' @ py_str py_repr m))))
              else Inl (Exception (lit ''Unexpected response format: '' @ py_str py_repr data)))
          else Inl e)"

definition get_google_response ::
  "provider_config \<Rightarrow> http_post \<Rightarrow> (json \<Rightarrow> str) \<Rightarrow> message list
     \<Rightarrow> http_request list \<Rightarrow> (error + json) \<times> http_request list" where
  "get_google_response self post py_repr messages sent =
     (let (response, sent') =
            requests_post post \<lparr>url = google_url self,
                                headers = [(lit ''Content-Type'', lit ''application/json'')],
                                payload = google_payload messages\<rparr> sent
      in (and_then (checked_json response) (google_extract py_repr), sent'))"

subsection \<open>HuggingFace\<close>

definition huggingface_prompt :: "(json \<Rightarrow> str) \<Rightarrow> message list \<Rightarrow> str" where
  "huggingface_prompt py_repr messages =
     py_join [0x0A]
       (map (\<lambda>msg. role msg @ lit '': '' @ py_str py_repr (content msg)) messages)"

definition huggingface_payload :: "(json \<Rightarrow> str) \<Rightarrow> message list \<Rightarrow> json" where
  "huggingface_payload py_repr messages =
     JObj [(lit ''inputs'', JStr (huggingface_prompt py_repr messages)),
           (lit ''parameters'', JObj [(lit ''max_new_tokens'', JNum 500),
                                      (lit ''temperature'', JNum (7 / 10))])]"

text \<open>
  The data of a successful answer: the entry \<open>generated_text\<close> of the first element of a
  non-empty list when \<open>"generated_text" in data[0]\<close> holds, and \<open>str(data)\<close> otherwise.
\<close>

definition huggingface_extract :: "(json \<Rightarrow> str) \<Rightarrow> json \<Rightarrow> error + json" where
  "huggingface_extract py_repr data =
     (case data of
        JArr (first # rest) \<Rightarrow>
          and_then (py_in (lit ''generated_text'') first) (\<lambda>found.
            if found then getitem_key first (lit ''generated_text'')
            else Inr (JStr (py_str py_repr data)))
      | _ \<Rightarrow> Inr (JStr (py_str py_repr data)))"

definition get_huggingface_response ::
  "provider_config \<Rightarrow> http_post \<Rightarrow> (json \<Rightarrow> str) \<Rightarrow> message list
     \<Rightarrow> http_request list \<Rightarrow> (error + json) \<times> http_request list" where
  "get_huggingface_response self post py_repr messages sent =
     (let (response, sent') =
            requests_post post \<lparr>url = api_url self @ model self,
                                headers = setup_headers self,
                                payload = huggingface_payload py_repr messages\<rparr> sent
      in (and_then (checked_json response) (huggingface_extract py_repr), sent'))"

subsection \<open>Dispatch on the provider's name\<close>

definition get_response ::
  "provider_config \<Rightarrow> http_post \<Rightarrow> (json \<Rightarrow> str) \<Rightarrow> message list
     \<Rightarrow> http_request list \<Rightarrow> (error + json) \<times> http_request list" where
  "get_response self post py_repr messages sent =
     (if py_substring (lit ''Anthropic'') (name self) then
        get_anthropic_response self post messages sent
      else if py_substring (lit ''Google'') (name self) then
        get_google_response self post py_repr messages sent
      else if py_substring (lit ''HuggingFace'') (name self) then
        get_huggingface_response self post py_repr messages sent
      else get_openai_compatible_response self post messages sent)"

definition set_model :: "provider_config \<Rightarrow> str \<Rightarrow> provider_config" where
  "set_model self m = self\<lparr>model := m\<rparr>"

section \<open>env_manager.py: the stored configuration\<close>

text \<open>
  The canned replies. The characters outside ASCII in the replies are written by their
  code points: the bullet U+2022 and the emoji U+1F44B and U+1F60A.
\<close>

definition CUSTOM_REPLIES :: "(str \<times> str) list" where
  "CUSTOM_REPLIES =
     [(lit ''hello'', lit ''Hello! Main aapki madad ke liye taiyaar hu. Kya main aapki koi madad kar sakta hu?''),
      (lit ''hi'', lit ''Hi! Kaise madad kar sakta hu?''),
      (lit ''hey'', lit ''Hey there! Kya help chahiye?''),
      (lit ''help'',
         lit ''Available Commands:'' @ [0x0A]
         @ [0x2022] @ lit '' /clear - Clear chat history'' @ [0x0A]
         @ [0x2022] @ lit '' /exit or /quit - Exit application'' @ [0x0A]
         @ [0x2022] @ lit '' /addapi - Add new LLM provider API key'' @ [0x0A]
         @ [0x2022] @ lit '' /switch - Switch between saved LLM providers''
         @ [0x0A]
         @ [0x2022] @ lit '' /deleteapi - Delete saved API key'' @ [0x0A]
         @ [0x2022] @ lit '' /help - Show this help message'' @ [0x0A]
         @ [0x0A] @ lit ''Ask me anything!''),
      (lit ''bye'', lit ''Goodbye! Phir milenge! '' @ [0x1F44B]),
      (lit ''goodbye'', lit ''Goodbye! Dhanyavaad! '' @ [0x1F44B]),
      (lit ''thanks'', lit ''Aapka swagat hai! '' @ [0x1F60A]),
      (lit ''thank you'',
         lit ''Koi baat nahi! Khushi hui madad karke! '' @ [0x1F60A]),
      (lit ''ok'', lit ''Theek hai! Aur kuch chahiye?''),
      (lit ''okay'', lit ''Bilkul! Aur kya help chahiye?'')]"

text \<open>
  The configuration lives in two places. \<open>dotenv_file\<close> is the file \<open>.env\<close>, its
  \<open>KEY=value\<close> lines in order; \<open>environ\<close> is \<open>os.environ\<close>, the environment of the running
  process. The functions of the \<open>dotenv\<close> library work as follows: \<open>set_key\<close> and
  \<open>unset_key\<close> rewrite the file and leave \<open>os.environ\<close> alone; \<open>load_dotenv\<close> copies the
  file's entries into \<open>os.environ\<close> (over an existing variable only with \<open>override\<close>) and
  removes nothing from it; \<open>os.getenv\<close> reads \<open>os.environ\<close>. Writing the file is taken to
  succeed.
\<close>

record env_state =
  dotenv_file :: "(str \<times> str) list"
  environ :: "str \<rightharpoonup> str"

definition set_key :: "(str \<times> str) list \<Rightarrow> str \<Rightarrow> str \<Rightarrow> (str \<times> str) list" where
  "set_key file k v =
     (if k \<in> set (map fst file) then map (\<lambda>(k', v'). if k' = k then (k', v) else (k', v')) file
      else file @ [(k, v)])"

definition unset_key :: "(str \<times> str) list \<Rightarrow> str \<Rightarrow> (str \<times> str) list" where
  "unset_key file k = filter (\<lambda>(k', v'). k' \<noteq> k) file"

definition load_dotenv ::
  "bool \<Rightarrow> (str \<times> str) list \<Rightarrow> (str \<rightharpoonup> str) \<Rightarrow> (str \<rightharpoonup> str)" where
  "load_dotenv override file env =
     (\<lambda>k. case map_of (rev file) k of
             None \<Rightarrow> env k
           | Some v \<Rightarrow> (if env k \<noteq> None \<and> \<not> override then env k else Some v))"

text \<open>The truth value of what \<open>os.getenv\<close> returns: \<open>None\<close> and the empty text are false.\<close>

definition truthy :: "str option \<Rightarrow> bool" where
  "truthy v = (case v of None \<Rightarrow> False | Some s \<Rightarrow> s \<noteq> [])"

definition model_key_of :: "provider \<Rightarrow> str" where
  "model_key_of p = py_replace (lit ''_API_KEY'') (lit ''_MODEL'') (env_key p)"

definition get_active_provider :: "(str \<rightharpoonup> str) \<Rightarrow> provider_config option" where
  "get_active_provider env =
     (case env (lit ''ACTIVE_PROVIDER'') of
        None \<Rightarrow> None
      | Some active_id \<Rightarrow>
          if active_id = [] then None
          else (case map_of LLM_PROVIDERS active_id of
                  None \<Rightarrow> None
                | Some p \<Rightarrow>
                    let saved_model = env (model_key_of p);
                        model' = (if truthy saved_model then the saved_model else model p)
                    in (case env (env_key p) of
                          None \<Rightarrow> None
                        | Some key \<Rightarrow>
                            if key = [] then None
                            else Some \<lparr>name = name p, env_key = env_key p,
                                       api_url = api_url p, model = model',
                                       api_key = key\<rparr>)))"

text \<open>\<open>str(idx)\<close> for a natural number.\<close>

function str_nat :: "nat \<Rightarrow> str" where
  "str_nat n =
     (if n < 10 then [0x30 + n]
      else str_nat (n div 10) @ [0x30 + n mod 10])"
  by pat_completeness auto
termination
  by (relation "measure (\<lambda>n. n)") auto

text \<open>
  The loop of \<open>_get_saved_providers\<close>: the providers with a credential in the environment,
  in table order, numbered from \<open>idx\<close>.
\<close>

fun saved_loop ::
  "(str \<rightharpoonup> str) \<Rightarrow> nat \<Rightarrow> (str \<times> str) list \<Rightarrow> (str \<times> provider) list
     \<Rightarrow> (str \<times> str) list" where
  "saved_loop env idx saved [] = saved"
| "saved_loop env idx saved ((provider_id, p) # rest) =
     (if truthy (env (env_key p))
      then saved_loop env (idx + 1) (saved @ [(str_nat idx, provider_id)]) rest
      else saved_loop env idx saved rest)"

definition get_saved_providers :: "(str \<rightharpoonup> str) \<Rightarrow> (str \<times> str) list" where
  "get_saved_providers env = saved_loop env 1 [] LLM_PROVIDERS"

text \<open>
  What the user answers at the prompts of one command: the menu choice, the two
  confirmations of \<open>add_api_key\<close>, the credential and the model name typed, and the
  confirmation of \<open>delete_api_key\<close>.
\<close>

record answers =
  ans_choice :: str
  ans_overwrite :: bool
  ans_api_key :: str
  ans_model_name :: str
  ans_switch :: bool
  ans_confirm :: bool

definition add_api_key :: "lib \<Rightarrow> env_state \<Rightarrow> answers \<Rightarrow> error + env_state" where
  "add_api_key l st a =
     (let choice = ans_choice a in
      if choice = lit ''0'' then Inr st
      else (case map_of LLM_PROVIDERS choice of
              None \<Rightarrow> Inl KeyError
            | Some p \<Rightarrow>
                if truthy (environ st (env_key p)) \<and> \<not> ans_overwrite a then Inr st
                else if py_strip (ans_api_key a) = [] then Inr st
                else if str_lower l (ans_model_name a) = lit ''cancel'' then Inr st
                else
                  let file1 = set_key (dotenv_file st) (env_key p) (ans_api_key a);
                      file2 = set_key file1 (model_key_of p) (ans_model_name a);
                      file3 = (if ans_switch a
                               then set_key (set_key file2 (lit ''ACTIVE_PROVIDER'') choice)
                                      (lit ''ACTIVE_PROVIDER_NAME'') (name p)
                               else file2)
                  in Inr (st\<lparr>dotenv_file := file3\<rparr>)))"

definition switch_provider :: "env_state \<Rightarrow> answers \<Rightarrow> error + env_state" where
  "switch_provider st a =
     (let saved_providers = get_saved_providers (environ st) in
      if saved_providers = [] then Inr st
      else
        let choice = ans_choice a in
        if choice = lit ''0'' then Inr st
        else (case map_of saved_providers choice of
                None \<Rightarrow> Inl KeyError
              | Some provider_id \<Rightarrow>
                  (case map_of LLM_PROVIDERS provider_id of
                     None \<Rightarrow> Inl KeyError
                   | Some p \<Rightarrow>
                       Inr (st\<lparr>dotenv_file :=
                                 set_key (set_key (dotenv_file st) (lit ''ACTIVE_PROVIDER'') provider_id)
                                   (lit ''ACTIVE_PROVIDER_NAME'') (name p)\<rparr>))))"

definition delete_api_key :: "env_state \<Rightarrow> answers \<Rightarrow> error + env_state" where
  "delete_api_key st a =
     (let saved_providers = get_saved_providers (environ st) in
      if saved_providers = [] then Inr st
      else
        let active_provider = environ st (lit ''ACTIVE_PROVIDER'');
            choice = ans_choice a
        in
        if choice = lit ''0'' then Inr st
        else (case map_of saved_providers choice of
                None \<Rightarrow> Inl KeyError
              | Some provider_id \<Rightarrow>
                  (case map_of LLM_PROVIDERS provider_id of
                     None \<Rightarrow> Inl KeyError
                   | Some p \<Rightarrow>
                       if \<not> ans_confirm a then Inr st
                       else
                         let file1 = unset_key (dotenv_file st) (env_key p);
                             file2 = unset_key file1 (model_key_of p);
                             file3 = (if Some provider_id = active_provider
                                      then unset_key (unset_key file2 (lit ''ACTIVE_PROVIDER''))
                                             (lit ''ACTIVE_PROVIDER_NAME'')
                                      else file2)
                         in Inr (st\<lparr>dotenv_file := file3\<rparr>))))"

section \<open>commands.py: the dispatcher\<close>

definition JOKES :: "str list" where
  "JOKES =
     [lit ''Why do programmers prefer dark mode? Because light attracts bugs!'',
      lit ''Why did the developer go broke? Because he used up all his cache!'',
      lit ''How many programmers does it take to change a light bulb? None, that'' @ [0x27]
        @ lit ''s a hardware problem!'',
      lit ''Why do programmers always confuse Halloween and Christmas? Because Oct 31 = Dec 25!'',
      lit ''A SQL query walks into a bar, walks up to two tables and asks, '' @ [0x27]
        @ lit ''Can I join you?'' @ [0x27],
      lit ''What'' @ [0x27] @ lit ''s a programmer'' @ [0x27] @ lit ''s favorite place? The Foo Bar.'',
      lit ''Why don'' @ [0x27]
        @ lit ''t programmers like nature? It has too many bugs and no debugging tool.'',
      lit ''Why do programmers hate nature? Too many bugs, not enough doc!'']"

definition show_help :: "console_out" where
  "show_help =
     Panel_table
       [(lit ''/help'', lit ''Show this help message''),
        (lit ''/exit'', lit ''Exit the chatbot''),
        (lit ''/clear'', lit ''Clear the chat history and screen''),
        (lit ''/joke'', lit ''Tell a random programming joke''),
        (lit ''/history'', lit ''Show your chat history''),
        (lit ''/addapi'', lit ''Add a new LLM provider API key''),
        (lit ''/switch'', lit ''Switch active LLM provider''),
        (lit ''/deleteapi'', lit ''Delete a saved API key'')]"

datatype signal = Exit | Reload | No_signal

text \<open>
  \<open>handle_command\<close> returns its signal (\<open>"exit"\<close>, \<open>"reload"\<close> or \<open>None\<close>) together with
  the transcript and the configuration it leaves and what it handed to the console, or the
  exception that leaves it. \<open>rand\<close> stands for the draw of \<open>random.choice\<close>; the panels the
  credential operations print are left out.
\<close>

definition handle_command ::
  "lib \<Rightarrow> str \<Rightarrow> message list \<Rightarrow> env_state option \<Rightarrow> answers \<Rightarrow> nat
     \<Rightarrow> error + (signal \<times> message list \<times> env_state option \<times> console_out list)" where
  "handle_command l command chat_history env_manager a rand =
     (case py_split command of
        [] \<Rightarrow> Inl IndexError
      | w # ws \<Rightarrow>
          let cmd = str_lower l w;
              unavailable = Panel (lit ''[red]Error: Environment manager not available[/red]'')
          in
          if cmd = lit ''/help'' then Inr (No_signal, chat_history, env_manager, [show_help])
          else if cmd = lit ''/exit'' then
            Inr (Exit, chat_history, env_manager,
                 [Panel (lit ''Thank you for using TermChat! Goodbye!'')])
          else if cmd = lit ''/clear'' then Inr (No_signal, [], env_manager, [Clear_screen])
          else if cmd = lit ''/joke'' then
            Inr (No_signal, chat_history, env_manager, [Panel (JOKES ! (rand mod length JOKES))])
          else if cmd = lit ''/history'' then
            (let (shown, chat_history') = show_history l chat_history
             in and_then shown (\<lambda>out. Inr (No_signal, chat_history', env_manager, [out])))
          else if cmd = lit ''/addapi'' then
            (case env_manager of
               None \<Rightarrow> Inr (No_signal, chat_history, env_manager, [unavailable])
             | Some st \<Rightarrow>
                 and_then (add_api_key l st a)
                   (\<lambda>st'. Inr (Reload, chat_history, Some st', [])))
          else if cmd = lit ''/switch'' then
            (case env_manager of
               None \<Rightarrow> Inr (No_signal, chat_history, env_manager, [unavailable])
             | Some st \<Rightarrow>
                 and_then (switch_provider st a)
                   (\<lambda>st'. Inr (Reload, chat_history, Some st', [])))
          else if cmd = lit ''/deleteapi'' then
            (case env_manager of
               None \<Rightarrow> Inr (No_signal, chat_history, env_manager, [unavailable])
             | Some st \<Rightarrow>
                 and_then (delete_api_key st a)
                   (\<lambda>st'. Inr (Reload, chat_history, Some st', [])))
          else
            (let unknown = lit ''Unknown command: '' @ cmd @ [0x0A]
                           @ lit ''Type /help to see available commands.''
             in if markup_error l unknown then Inl MarkupError
                else Inr (No_signal, chat_history, env_manager, [Panel unknown])))"

section \<open>ui.py: the reply panel\<close>

text \<open>
  \<open>format_ai_response\<close> builds \<open>Markdown(text)\<close> and prints it in a panel. A text is
  always accepted (it is read as Markdown, not as console markup); for a value that is
  not text \<open>Markdown\<close> raises.
\<close>

definition format_ai_response :: "lib \<Rightarrow> json \<Rightarrow> error + console_out" where
  "format_ai_response l v =
     (case v of JStr text0 \<Rightarrow> Inr (Markdown_panel text0) | _ \<Rightarrow> Inl (markdown_error l v))"

section \<open>termchat.py: one turn of the chat loop\<close>

text \<open>
  The state the loop of \<open>main\<close> carries from one input to the next: the transcript, the
  client (the configuration it was built from), the stored configuration, and the requests
  sent so far.
\<close>

record chat_state =
  chat_history :: "message list"
  client :: "provider_config option"
  env :: env_state
  sent :: "http_request list"

text \<open>
  \<open>initialize_client\<close> returns the client for the active provider, or \<open>None\<close> after
  printing an error panel.
\<close>

definition initialize_client :: "env_state \<Rightarrow> provider_config option \<times> console_out list" where
  "initialize_client st =
     (case get_active_provider (environ st) of
        None \<Rightarrow>
          (None,
           [Panel (lit ''[bold red]Error: No active provider configured![/]'' @ [0x0A]
                   @ lit ''Please use /addapi to add an API key and /switch to select a provider.'')])
      | Some provider_config \<Rightarrow> (Some provider_config, []))"

text \<open>
  How one pass through the loop body ends: the loop goes on, the loop is left, or an
  exception leaves \<open>main\<close> uncaught and ends the program; each with the state reached.
\<close>

datatype outcome =
    Continue chat_state "console_out list"
  | Break chat_state "console_out list"
  | Uncaught chat_state error

text \<open>
  The handler \<open>except Exception as e\<close> of the chat turn, entered in state \<open>s\<close> after what
  was printed before (\<open>out\<close>). It first prints the text of the exception as console markup,
  and that print can raise: then the handler is left at once and the exception leaves
  \<open>main\<close>. Only after the print does it remove the last message, if that is a user message.
\<close>

definition except_handler :: "lib \<Rightarrow> chat_state \<Rightarrow> console_out list \<Rightarrow> error \<Rightarrow> outcome" where
  "except_handler l s out e =
     (let line = [0x0A] @ lit ''[bold red]Error:[/bold red] '' @ py_exception_str l e in
      if markup_error l line then Uncaught s MarkupError
      else
        Continue
          (s\<lparr>chat_history :=
               (if chat_history s \<noteq> [] \<and> role (last (chat_history s)) = lit ''user''
                then butlast (chat_history s) else chat_history s)\<rparr>)
          (out @ [Print line]))"

definition main_step ::
  "lib \<Rightarrow> chat_state \<Rightarrow> str \<Rightarrow> answers \<Rightarrow> nat \<Rightarrow> http_post \<Rightarrow> (json \<Rightarrow> str) \<Rightarrow> outcome" where
  "main_step l s user_input a rand post py_repr =
     (if py_startswith user_input (lit ''/'') then
        (case handle_command l user_input (chat_history s) (Some (env s)) a rand of
           Inl e \<Rightarrow> Uncaught s e
         | Inr (command_result, chat_history', env_manager', out) \<Rightarrow>
             let s1 = s\<lparr>chat_history := chat_history',
                        env := (case env_manager' of None \<Rightarrow> env s | Some st \<Rightarrow> st)\<rparr>
             in
             if command_result = Exit then Break s1 out
             else if command_result = Reload then
               (let st2 = (env s1)\<lparr>environ := load_dotenv True (dotenv_file (env s1))
                                                 (environ (env s1))\<rparr>;
                    s2 = s1\<lparr>env := st2\<rparr>
                in (case initialize_client st2 of
                      (Some new_client, printed) \<Rightarrow>
                        let s3 = s2\<lparr>client := Some new_client\<rparr>;
                            reloaded = lit ''[bold green]'' @ [0x2713]
                              @ lit ''[/bold green] Client reloaded!'' @ [0x0A]
                              @ lit ''[bold cyan]Active Provider:[/bold cyan] ''
                              @ name new_client @ [0x0A]
                              @ lit ''[bold cyan]Model:[/bold cyan] '' @ model new_client
                        in if markup_error l reloaded then Uncaught s3 MarkupError
                           else Continue s3 (out @ printed @ [Panel reloaded])
                    | (None, printed) \<Rightarrow>
                        Continue s2
                          (out @ printed
                           @ [Panel (lit ''[yellow]Warning: No active provider configured.''
                                     @ [0x0A]
                                     @ lit ''Please use /addapi to add an API key and /switch to select a provider.[/yellow]'')])))
             else Continue s1 out)
      else
        (let user_input_lower = py_strip (str_lower l user_input);
             header = Print ([0x0A] @ lit ''[bold purple]AI Assistant[/bold purple]'')
         in
         case map_of CUSTOM_REPLIES user_input_lower of
           Some reply \<Rightarrow>
             (case format_ai_response l (JStr reply) of
                Inr panel \<Rightarrow> Continue s [header, panel]
              | Inl e \<Rightarrow> Uncaught s e)
         | None \<Rightarrow>
             (case client s of
                None \<Rightarrow>
                  Continue s
                    [Panel (lit ''[yellow]No active provider configured.'' @ [0x0A]
                            @ lit ''Please use /addapi to add an API key and /switch to select a provider.[/yellow]'')]
              | Some c \<Rightarrow>
                  let history1 = chat_history s @ [\<lparr>role = lit ''user'', content = JStr user_input\<rparr>];
                      (result, sent') = get_response c post py_repr history1 (sent s)
                  in (case result of
                        Inr response \<Rightarrow>
                          (let s2 = s\<lparr>chat_history :=
                                        history1 @ [\<lparr>role = lit ''assistant'', content = response\<rparr>],
                                      sent := sent'\<rparr>
                           in case format_ai_response l response of
                                Inr panel \<Rightarrow> Continue s2 [header, panel]
                              | Inl e \<Rightarrow> except_handler l s2 [header] e)
                      | Inl e \<Rightarrow>
                          except_handler l (s\<lparr>chat_history := history1, sent := sent'\<rparr>) [] e))))"

section \<open>Sequencing\<close>

lemma and_then_Inl [simp]: "and_then (Inl e) f = Inl e"
  by (simp add: and_then_def)

lemma and_then_Inr [simp]: "and_then (Inr v) f = f v"
  by (simp add: and_then_def)

lemma checked_json_http_error:
  "400 \<le> status_code response \<Longrightarrow> status_code response < 600 \<Longrightarrow>
   checked_json (Inr response) = Inl (HTTPError (status_code response))"
  by (simp add: checked_json_def and_then_def raise_for_status_def)

lemma checked_json_ok:
  "\<not> (400 \<le> status_code response \<and> status_code response < 600) \<Longrightarrow>
   json_body response = Some data \<Longrightarrow> checked_json (Inr response) = Inr data"
  by (simp add: checked_json_def raise_for_status_def response_json_def)

section \<open>The history display\<close>

lemma history_cell_150:
  "length c = 150 \<Longrightarrow> history_cell c = take 97 c @ lit ''...'' \<and> length (history_cell c) = 100"
  by (simp add: history_cell_def)

lemma add_rows_rows:
  "add_rows l table msgs = Inr rows \<Longrightarrow>
     length rows = length table + length msgs
     \<and> (\<forall>i < length msgs. history_row l (msgs ! i) = Inr (rows ! (length table + i)))"
proof (induction msgs arbitrary: table)
  case Nil
  then show ?case by simp
next
  case (Cons m ms)
  from Cons.prems obtain row where row: "history_row l m = Inr row"
    and rest: "add_rows l (table @ [row]) ms = Inr rows"
    by (cases "history_row l m") auto
  from Cons.IH [OF rest]
  have len: "length rows = length table + 1 + length ms"
    and later: "\<forall>i < length ms. history_row l (ms ! i) = Inr (rows ! (length table + 1 + i))"
    by auto
  have keep: "add_rows l t ms' = Inr rs \<Longrightarrow> j < length t \<Longrightarrow> rs ! j = t ! j" for t ms' rs j
  proof (induction ms' arbitrary: t)
    case Nil
    then show ?case by simp
  next
    case (Cons x xs)
    from Cons.prems(1) obtain r where "add_rows l (t @ [r]) xs = Inr rs"
      by (cases "history_row l x") auto
    from Cons.IH [OF this] Cons.prems(2) show ?case
      by (simp add: nth_append)
  qed
  have first: "rows ! length table = row"
    using keep [OF rest, of "length table"] by simp
  show ?case
  proof (intro conjI allI impI)
    show "length rows = length table + length (m # ms)"
      using len by simp
  next
    fix i assume "i < length (m # ms)"
    then show "history_row l ((m # ms) ! i) = Inr (rows ! (length table + i))"
      using row first later by (cases i) auto
  qed
qed

text \<open>
  C3, as amended. For every message of the transcript whose content is a text of length
  150, the message cell that \<open>show_history\<close> puts into the history table is the first 97
  characters of the content followed by the marker \<open>...\<close>, a markup text of 100
  characters, which \<open>rich\<close> then draws or refuses; whether the display succeeds or raises,
  the transcript that \<open>show_history\<close> leaves is the one it was given, and the stored content
  still has length 150.
\<close>

theorem history_truncation:
  assumes "i < length hist" and "content (hist ! i) = JStr c" and "length c = 150"
  shows "(\<exists>role_cell. history_row l (hist ! i) = Inr (role_cell, take 97 c @ lit ''...''))
    \<and> length (take 97 c @ lit ''...'') = 100
    \<and> (\<forall>rows. fst (show_history l hist) = Inr (Panel_table rows) \<longrightarrow>
          length rows = length hist \<and> snd (rows ! i) = take 97 c @ lit ''...'')
    \<and> snd (show_history l hist) = hist
    \<and> content (snd (show_history l hist) ! i) = JStr c"
proof -
  have row: "\<exists>role_cell. history_row l (hist ! i) = Inr (role_cell, take 97 c @ lit ''...'')"
    using assms(2,3) by (simp add: history_row_def history_cell_def Let_def)
  have len: "length (take 97 c @ lit ''...'') = 100"
    using assms(3) by simp
  have table: "length rows = length hist \<and> snd (rows ! i) = take 97 c @ lit ''...''"
    if "fst (show_history l hist) = Inr (Panel_table rows)" for rows
  proof -
    from that assms(1) have "add_rows l [] hist = Inr rows"
      by (cases "add_rows l [] hist") (auto simp: show_history_def split: if_splits)
    from add_rows_rows [OF this] assms(1) row show ?thesis
      by auto
  qed
  have same: "snd (show_history l hist) = hist"
    by (simp add: show_history_def)
  show ?thesis
    using row len table same assms(2) by simp
qed

theorem history_truncation_witness:
  "0 < length [\<lparr>role = lit ''user'', content = JStr (replicate 150 0x61)\<rparr>]
   \<and> length (replicate 150 (0x61 :: nat)) = 150
   \<and> fst (show_history
            \<lparr>str_lower = map (\<lambda>c. if 0x41 \<le> c \<and> c \<le> 0x5A then c + 0x20 else c),
             str_capitalize =
               (\<lambda>t. case t of [] \<Rightarrow> []
                     | c # cs \<Rightarrow> (if 0x61 \<le> c \<and> c \<le> 0x7A then c - 0x20 else c)
                         # map (\<lambda>d. if 0x41 \<le> d \<and> d \<le> 0x5A then d + 0x20 else d) cs),
             exception_str = (\<lambda>e. []), markup_error = (\<lambda>t. False),
             markdown_error = (\<lambda>v. TypeError), history_error = (\<lambda>v. TypeError)\<rparr>
            [\<lparr>role = lit ''user'', content = JStr (replicate 150 0x61)\<rparr>])
       = Inr (Panel_table [(lit ''[green]User[/green]'', replicate 97 0x61 @ lit ''...'')])
   \<and> snd (show_history
            \<lparr>str_lower = map (\<lambda>c. if 0x41 \<le> c \<and> c \<le> 0x5A then c + 0x20 else c),
             str_capitalize =
               (\<lambda>t. case t of [] \<Rightarrow> []
                     | c # cs \<Rightarrow> (if 0x61 \<le> c \<and> c \<le> 0x7A then c - 0x20 else c)
                         # map (\<lambda>d. if 0x41 \<le> d \<and> d \<le> 0x5A then d + 0x20 else d) cs),
             exception_str = (\<lambda>e. []), markup_error = (\<lambda>t. False),
             markdown_error = (\<lambda>v. TypeError), history_error = (\<lambda>v. TypeError)\<rparr>
            [\<lparr>role = lit ''user'', content = JStr (replicate 150 0x61)\<rparr>])
       = [\<lparr>role = lit ''user'', content = JStr (replicate 150 0x61)\<rparr>]"
proof -
  let ?l = "\<lparr>str_lower = map (\<lambda>c. if 0x41 \<le> c \<and> c \<le> 0x5A then c + 0x20 else c),
             str_capitalize =
               (\<lambda>t. case t of [] \<Rightarrow> []
                     | c # cs \<Rightarrow> (if 0x61 \<le> c \<and> c \<le> 0x7A then c - 0x20 else c)
                         # map (\<lambda>d. if 0x41 \<le> d \<and> d \<le> 0x5A then d + 0x20 else d) cs),
             exception_str = (\<lambda>e. []), markup_error = (\<lambda>t. False),
             markdown_error = (\<lambda>v. TypeError), history_error = (\<lambda>v. TypeError)\<rparr>"
  let ?hist = "[\<lparr>role = lit ''user'', content = JStr (replicate 150 0x61)\<rparr>]"
  have shown: "fst (show_history ?l ?hist)
       = Inr (Panel_table [(lit ''[green]User[/green]'', replicate 97 0x61 @ lit ''...'')])"
    by (simp add: show_history_def history_row_def history_cell_def Let_def)
  have "snd (show_history ?l ?hist) = ?hist"
    using history_truncation [of 0 ?hist "replicate 150 0x61" ?l] by simp
  with shown show ?thesis by simp
qed

text \<open>
  C3 as stated fails: for a content of 150 letters \<open>a\<close> the cell holds 97 letters and the
  marker, not 100 letters and the marker.
\<close>

theorem history_truncation_counterexample:
  "length (replicate 150 (0x61 :: nat)) = 150
   \<and> history_cell (replicate 150 0x61) = replicate 97 0x61 @ lit ''...''
   \<and> history_cell (replicate 150 0x61) \<noteq> replicate 100 0x61 @ lit ''...''"
  by (simp add: history_cell_def)

section \<open>The Google request body\<close>

lemma google_contents_acc:
  "google_contents acc msgs =
     acc @ map (\<lambda>m. JObj [(lit ''role'', JStr (if role m = lit ''user'' then lit ''user'' else lit ''model'')),
                           (lit ''parts'', JArr [JObj [(lit ''text'', content m)]])]) msgs"
  by (induction msgs arbitrary: acc) (simp_all add: Let_def)

text \<open>
  C1, as amended. For every transcript, the Google request builder maps the messages, in
  order and one to one, to objects \<open>{role, parts: [{text: content}]}\<close>, where the role
  \<open>user\<close> stays \<open>user\<close> and every other role (\<open>assistant\<close> and \<open>system\<close> among them)
  becomes \<open>model\<close>.
\<close>

theorem google_roles:
  "length (google_contents [] msgs) = length msgs \<and>
   (\<forall>i < length msgs.
      google_contents [] msgs ! i =
        JObj [(lit ''role'', JStr (if role (msgs ! i) = lit ''user'' then lit ''user'' else lit ''model'')),
              (lit ''parts'', JArr [JObj [(lit ''text'', content (msgs ! i))]])])"
  by (simp add: google_contents_acc)

theorem google_roles_witness:
  "2 < length [\<lparr>role = lit ''system'', content = JStr (lit ''be brief'')\<rparr>,
              \<lparr>role = lit ''user'', content = JStr (lit ''hi there'')\<rparr>,
              \<lparr>role = lit ''assistant'', content = JStr (lit ''hello'')\<rparr>]
   \<and> google_contents []
       [\<lparr>role = lit ''system'', content = JStr (lit ''be brief'')\<rparr>, \<lparr>role = lit ''user'', content = JStr (lit ''hi there'')\<rparr>,
        \<lparr>role = lit ''assistant'', content = JStr (lit ''hello'')\<rparr>] ! 2
     = JObj [(lit ''role'', JStr (lit ''model'')), (lit ''parts'', JArr [JObj [(lit ''text'', JStr (lit ''hello''))]])]"
  using google_roles [of "[\<lparr>role = lit ''system'', content = JStr (lit ''be brief'')\<rparr>,
      \<lparr>role = lit ''user'', content = JStr (lit ''hi there'')\<rparr>, \<lparr>role = lit ''assistant'', content = JStr (lit ''hello'')\<rparr>]"]
  by simp

text \<open>
  C1 as stated fails: a system message is sent with the role \<open>model\<close>, not \<open>user\<close>.
\<close>

theorem google_system_role_counterexample:
  "google_contents [] [\<lparr>role = lit ''system'', content = JStr (lit ''be brief'')\<rparr>]
     = [JObj [(lit ''role'', JStr (lit ''model'')), (lit ''parts'', JArr [JObj [(lit ''text'', JStr (lit ''be brief''))]])]]
   \<and> google_contents [] [\<lparr>role = lit ''system'', content = JStr (lit ''be brief'')\<rparr>]
     \<noteq> [JObj [(lit ''role'', JStr (lit ''user'')), (lit ''parts'', JArr [JObj [(lit ''text'', JStr (lit ''be brief''))]])]]"
  by simp


section \<open>The Anthropic request body\<close>

lemma anthropic_loop_acc:
  "anthropic_loop sm um msgs =
     (if filter (\<lambda>m. role m = lit ''system'') msgs = [] then sm
      else content (last (filter (\<lambda>m. role m = lit ''system'') msgs)),
      um @ map message_json (filter (\<lambda>m. role m \<noteq> lit ''system'') msgs))"
  by (induction msgs arbitrary: sm um) (simp_all add: message_json_def)

lemma anthropic_payload_eq:
  "anthropic_payload self msgs =
     [(lit ''model'', JStr (model self)),
      (lit ''messages'', JArr (map message_json (filter (\<lambda>m. role m \<noteq> lit ''system'') msgs))),
      (lit ''max_tokens'', JNum 4096)]
     @ (if filter (\<lambda>m. role m = lit ''system'') msgs = [] \<or> \<not> py_truthy (content (last (filter (\<lambda>m. role m = lit ''system'') msgs)))
        then []
        else [(lit ''system'', content (last (filter (\<lambda>m. role m = lit ''system'') msgs)))])"
  by (simp add: anthropic_payload_def anthropic_loop_acc setitem_def)

lemma last_system_in_set:
  assumes "filter (\<lambda>m. role m = lit ''system'') msgs \<noteq> []"
  shows "last (filter (\<lambda>m. role m = lit ''system'') msgs) \<in> set msgs
         \<and> role (last (filter (\<lambda>m. role m = lit ''system'') msgs)) = lit ''system''"
proof -
  have "last (filter (\<lambda>m. role m = lit ''system'') msgs) \<in> set (filter (\<lambda>m. role m = lit ''system'') msgs)"
    using assms by (rule last_in_set)
  then show ?thesis by simp
qed

lemma anthropic_request_sent:
  "snd (get_anthropic_response self post msgs reqs) =
     reqs @ [\<lparr>url = api_url self, headers = setup_headers self,
              payload = JObj (anthropic_payload self msgs)\<rparr>]"
  by (simp add: get_anthropic_response_def requests_post_def)

text \<open>
  C4, as amended. For every transcript, the Anthropic adapter posts one request, also
  when it is reached through \<open>get_response\<close>, and the body of that request is: the model;
  the messages list, which holds the messages whose role is not \<open>system\<close>, in order, and
  so no system entry; \<open>max_tokens\<close>, which is 4096; and a top-level \<open>system\<close> field
  with the content of the last system message when that content is not empty. The contents
  of the earlier system messages, and an empty last one, are nowhere in the body.
\<close>

theorem anthropic_request_body:
  "snd (get_anthropic_response self post msgs reqs) =
     reqs @ [\<lparr>url = api_url self, headers = setup_headers self,
              payload = JObj
                ([(lit ''model'', JStr (model self)),
                  (lit ''messages'', JArr (map message_json (filter (\<lambda>m. role m \<noteq> lit ''system'') msgs))),
                  (lit ''max_tokens'', JNum 4096)]
                 @ (if filter (\<lambda>m. role m = lit ''system'') msgs = [] \<or> \<not> py_truthy (content (last (filter (\<lambda>m. role m = lit ''system'') msgs)))
                    then []
                    else [(lit ''system'', content (last (filter (\<lambda>m. role m = lit ''system'') msgs)))]))\<rparr>]
   \<and> (py_substring (lit ''Anthropic'') (name self) \<longrightarrow>
        get_response self post py_repr msgs reqs = get_anthropic_response self post msgs reqs)
   \<and> (\<forall>e \<in> set (map message_json (filter (\<lambda>m. role m \<noteq> lit ''system'') msgs)).
         getitem_key e (lit ''role'') \<noteq> Inr (JStr (lit ''system'')))"
proof (intro conjI)
  show "snd (get_anthropic_response self post msgs reqs) =
     reqs @ [\<lparr>url = api_url self, headers = setup_headers self,
              payload = JObj
                ([(lit ''model'', JStr (model self)),
                  (lit ''messages'', JArr (map message_json (filter (\<lambda>m. role m \<noteq> lit ''system'') msgs))),
                  (lit ''max_tokens'', JNum 4096)]
                 @ (if filter (\<lambda>m. role m = lit ''system'') msgs = [] \<or> \<not> py_truthy (content (last (filter (\<lambda>m. role m = lit ''system'') msgs)))
                    then []
                    else [(lit ''system'', content (last (filter (\<lambda>m. role m = lit ''system'') msgs)))]))\<rparr>]"
    unfolding anthropic_request_sent anthropic_payload_eq ..
next
  show "py_substring (lit ''Anthropic'') (name self) \<longrightarrow>
        get_response self post py_repr msgs reqs = get_anthropic_response self post msgs reqs"
    by (simp add: get_response_def)
next
  show "\<forall>e \<in> set (map message_json (filter (\<lambda>m. role m \<noteq> lit ''system'') msgs)).
         getitem_key e (lit ''role'') \<noteq> Inr (JStr (lit ''system''))"
    by (auto simp: message_json_def)
qed

theorem anthropic_request_body_witness:
  "py_substring (lit ''Anthropic'') (name \<lparr>name = lit ''Anthropic (Claude)'', env_key = lit ''ANTHROPIC_API_KEY'',
        api_url = lit ''https://api.anthropic.com/v1/messages'',
        model = lit ''claude-3-sonnet-20240229'', api_key = lit ''k''\<rparr>)
   \<and> snd (get_response \<lparr>name = lit ''Anthropic (Claude)'', env_key = lit ''ANTHROPIC_API_KEY'',
        api_url = lit ''https://api.anthropic.com/v1/messages'',
        model = lit ''claude-3-sonnet-20240229'', api_key = lit ''k''\<rparr>
        (\<lambda>request. Inl ConnectionError) (\<lambda>v. []) [\<lparr>role = lit ''system'', content = JStr (lit ''be brief'')\<rparr>,
        \<lparr>role = lit ''user'', content = JStr (lit ''hi there'')\<rparr>,
        \<lparr>role = lit ''assistant'', content = JStr (lit ''hello'')\<rparr>] [])
     = [\<lparr>url = lit ''https://api.anthropic.com/v1/messages'',
         headers = [(lit ''x-api-key'', lit ''k''),
                    (lit ''Content-Type'', lit ''application/json''),
                    (lit ''anthropic-version'', lit ''2023-06-01'')],
         payload = JObj
           [(lit ''model'', JStr (lit ''claude-3-sonnet-20240229'')),
            (lit ''messages'',
               JArr [JObj [(lit ''role'', JStr (lit ''user'')),
                           (lit ''content'', JStr (lit ''hi there''))],
                     JObj [(lit ''role'', JStr (lit ''assistant'')),
                           (lit ''content'', JStr (lit ''hello''))]]),
            (lit ''max_tokens'', JNum 4096),
            (lit ''system'', JStr (lit ''be brief''))]\<rparr>]"
proof -
  let ?self = "\<lparr>name = lit ''Anthropic (Claude)'', env_key = lit ''ANTHROPIC_API_KEY'',
        api_url = lit ''https://api.anthropic.com/v1/messages'',
        model = lit ''claude-3-sonnet-20240229'', api_key = lit ''k''\<rparr>"
  let ?msgs = "[\<lparr>role = lit ''system'', content = JStr (lit ''be brief'')\<rparr>,
        \<lparr>role = lit ''user'', content = JStr (lit ''hi there'')\<rparr>,
        \<lparr>role = lit ''assistant'', content = JStr (lit ''hello'')\<rparr>]"
  have a: "py_substring (lit ''Anthropic'') (name ?self)"
    by simp
  note t = anthropic_request_body [of ?self "\<lambda>request. Inl ConnectionError" ?msgs "[]" "\<lambda>v. []"]
  from t a have "get_response ?self (\<lambda>request. Inl ConnectionError) (\<lambda>v. []) ?msgs []
      = get_anthropic_response ?self (\<lambda>request. Inl ConnectionError) ?msgs []"
    by blast
  moreover from t have "snd (get_anthropic_response ?self (\<lambda>request. Inl ConnectionError) ?msgs [])
      = [] @ [\<lparr>url = api_url ?self, headers = setup_headers ?self,
              payload = JObj
                ([(lit ''model'', JStr (model ?self)),
                  (lit ''messages'', JArr (map message_json (filter (\<lambda>m. role m \<noteq> lit ''system'') ?msgs))),
                  (lit ''max_tokens'', JNum 4096)]
                 @ (if filter (\<lambda>m. role m = lit ''system'') ?msgs = [] \<or> \<not> py_truthy (content (last (filter (\<lambda>m. role m = lit ''system'') ?msgs)))
                    then []
                    else [(lit ''system'', content (last (filter (\<lambda>m. role m = lit ''system'') ?msgs)))]))\<rparr>]"
    by blast
  ultimately show ?thesis
    using a by (simp add: message_json_def setup_headers_def)
qed

text \<open>
  C4 as stated fails: with a first system message \<open>be brief\<close> and a last, empty one, the
  body has no field \<open>system\<close>, and the content \<open>be brief\<close> is carried nowhere.
\<close>

theorem anthropic_request_body_counterexample:
  "anthropic_payload \<lparr>name = lit ''Anthropic (Claude)'', env_key = lit ''ANTHROPIC_API_KEY'',
        api_url = lit ''https://api.anthropic.com/v1/messages'',
        model = lit ''claude-3-sonnet-20240229'', api_key = lit ''k''\<rparr> [\<lparr>role = lit ''system'', content = JStr (lit ''be brief'')\<rparr>,
        \<lparr>role = lit ''user'', content = JStr (lit ''hi there'')\<rparr>,
        \<lparr>role = lit ''system'', content = JStr []\<rparr>]
   = [(lit ''model'', JStr (lit ''claude-3-sonnet-20240229'')),
      (lit ''messages'',
         JArr [JObj [(lit ''role'', JStr (lit ''user'')),
                     (lit ''content'', JStr (lit ''hi there''))]]),
      (lit ''max_tokens'', JNum 4096)]"
  by (simp add: anthropic_payload_def setitem_def)

text \<open>
  C10, as amended. For every transcript with two or more system messages, the request body
  is the model, the messages that are not system messages, \<open>max_tokens\<close>, and the content
  of the last system message as the field \<open>system\<close> when that content is not empty; when
  it is empty there is no field \<open>system\<close>. Nothing of the earlier system messages is in the
  body. A transcript in which every system message is empty gives a body with no field
  \<open>system\<close>.
\<close>

theorem anthropic_last_system_only:
  "(2 \<le> length (filter (\<lambda>m. role m = lit ''system'') msgs) \<longrightarrow>
      anthropic_payload self msgs =
        [(lit ''model'', JStr (model self)),
         (lit ''messages'', JArr (map message_json (filter (\<lambda>m. role m \<noteq> lit ''system'') msgs))),
         (lit ''max_tokens'', JNum 4096)]
        @ (if py_truthy (content (last (filter (\<lambda>m. role m = lit ''system'') msgs)))
           then [(lit ''system'', content (last (filter (\<lambda>m. role m = lit ''system'') msgs)))]
           else []))
   \<and> ((\<forall>m \<in> set msgs. role m = lit ''system'' \<longrightarrow> \<not> py_truthy (content m)) \<longrightarrow>
        map_of (anthropic_payload self msgs) (lit ''system'') = None)"
proof (intro conjI impI)
  assume "2 \<le> length (filter (\<lambda>m. role m = lit ''system'') msgs)"
  then have "filter (\<lambda>m. role m = lit ''system'') msgs \<noteq> []"
    by auto
  then show "anthropic_payload self msgs =
        [(lit ''model'', JStr (model self)),
         (lit ''messages'', JArr (map message_json (filter (\<lambda>m. role m \<noteq> lit ''system'') msgs))),
         (lit ''max_tokens'', JNum 4096)]
        @ (if py_truthy (content (last (filter (\<lambda>m. role m = lit ''system'') msgs)))
           then [(lit ''system'', content (last (filter (\<lambda>m. role m = lit ''system'') msgs)))]
           else [])"
    by (simp add: anthropic_payload_eq)
next
  assume empty: "\<forall>m \<in> set msgs. role m = lit ''system'' \<longrightarrow> \<not> py_truthy (content m)"
  show "map_of (anthropic_payload self msgs) (lit ''system'') = None"
    using empty last_system_in_set [of msgs]
    by (auto simp: anthropic_payload_eq)
qed

theorem anthropic_last_system_only_witness:
  "2 \<le> length (filter (\<lambda>m. role m = lit ''system'') [\<lparr>role = lit ''system'', content = JStr (lit ''be brief'')\<rparr>,
        \<lparr>role = lit ''user'', content = JStr (lit ''hi there'')\<rparr>,
        \<lparr>role = lit ''system'', content = JStr (lit ''be kind'')\<rparr>])
   \<and> anthropic_payload \<lparr>name = lit ''Anthropic (Claude)'', env_key = lit ''ANTHROPIC_API_KEY'',
        api_url = lit ''https://api.anthropic.com/v1/messages'',
        model = lit ''claude-3-sonnet-20240229'', api_key = lit ''k''\<rparr> [\<lparr>role = lit ''system'', content = JStr (lit ''be brief'')\<rparr>,
        \<lparr>role = lit ''user'', content = JStr (lit ''hi there'')\<rparr>,
        \<lparr>role = lit ''system'', content = JStr (lit ''be kind'')\<rparr>]
     = [(lit ''model'', JStr (lit ''claude-3-sonnet-20240229'')),
        (lit ''messages'',
           JArr [JObj [(lit ''role'', JStr (lit ''user'')),
                       (lit ''content'', JStr (lit ''hi there''))]]),
        (lit ''max_tokens'', JNum 4096),
        (lit ''system'', JStr (lit ''be kind''))]
   \<and> map_of (anthropic_payload \<lparr>name = lit ''Anthropic (Claude)'', env_key = lit ''ANTHROPIC_API_KEY'',
        api_url = lit ''https://api.anthropic.com/v1/messages'',
        model = lit ''claude-3-sonnet-20240229'', api_key = lit ''k''\<rparr>
         [\<lparr>role = lit ''system'', content = JStr []\<rparr>,
          \<lparr>role = lit ''user'', content = JStr (lit ''hi there'')\<rparr>])
         (lit ''system'') = None"
proof -
  let ?two = "[\<lparr>role = lit ''system'', content = JStr (lit ''be brief'')\<rparr>,
        \<lparr>role = lit ''user'', content = JStr (lit ''hi there'')\<rparr>,
        \<lparr>role = lit ''system'', content = JStr (lit ''be kind'')\<rparr>]"
  let ?none = "[\<lparr>role = lit ''system'', content = JStr []\<rparr>,
                \<lparr>role = lit ''user'', content = JStr (lit ''hi there'')\<rparr>]"
  let ?self = "\<lparr>name = lit ''Anthropic (Claude)'', env_key = lit ''ANTHROPIC_API_KEY'',
        api_url = lit ''https://api.anthropic.com/v1/messages'',
        model = lit ''claude-3-sonnet-20240229'', api_key = lit ''k''\<rparr>"
  have h1: "2 \<le> length (filter (\<lambda>m. role m = lit ''system'') ?two)"
    by simp
  have h2: "\<forall>m \<in> set ?none. role m = lit ''system'' \<longrightarrow> \<not> py_truthy (content m)"
    by simp
  have p1: "anthropic_payload ?self ?two =
        [(lit ''model'', JStr (model ?self)),
         (lit ''messages'', JArr (map message_json (filter (\<lambda>m. role m \<noteq> lit ''system'') ?two))),
         (lit ''max_tokens'', JNum 4096)]
        @ (if py_truthy (content (last (filter (\<lambda>m. role m = lit ''system'') ?two)))
           then [(lit ''system'', content (last (filter (\<lambda>m. role m = lit ''system'') ?two)))]
           else [])"
    using anthropic_last_system_only [of ?two ?self] h1 by blast
  have p2: "map_of (anthropic_payload ?self ?none) (lit ''system'') = None"
    using anthropic_last_system_only [of ?none ?self] h2 by blast
  have p1': "anthropic_payload ?self ?two =
      [(lit ''model'', JStr (lit ''claude-3-sonnet-20240229'')),
        (lit ''messages'',
           JArr [JObj [(lit ''role'', JStr (lit ''user'')),
                       (lit ''content'', JStr (lit ''hi there''))]]),
        (lit ''max_tokens'', JNum 4096),
        (lit ''system'', JStr (lit ''be kind''))]"
    unfolding p1 by (simp add: message_json_def)
  show ?thesis
    using h1 p1' p2 by blast
qed

text \<open>
  C10 as stated fails: of the two system messages \<open>be brief\<close> and the empty text, the
  content of the last is not kept as a field \<open>system\<close>; the body has no such field.
\<close>

theorem anthropic_last_system_only_counterexample:
  "map_of (anthropic_payload \<lparr>name = lit ''Anthropic (Claude)'', env_key = lit ''ANTHROPIC_API_KEY'',
        api_url = lit ''https://api.anthropic.com/v1/messages'',
        model = lit ''claude-3-sonnet-20240229'', api_key = lit ''k''\<rparr> [\<lparr>role = lit ''system'', content = JStr (lit ''be brief'')\<rparr>,
        \<lparr>role = lit ''user'', content = JStr (lit ''hi there'')\<rparr>,
        \<lparr>role = lit ''system'', content = JStr []\<rparr>]) (lit ''system'') = None
   \<and> map_of (anthropic_payload \<lparr>name = lit ''Anthropic (Claude)'', env_key = lit ''ANTHROPIC_API_KEY'',
        api_url = lit ''https://api.anthropic.com/v1/messages'',
        model = lit ''claude-3-sonnet-20240229'', api_key = lit ''k''\<rparr> [\<lparr>role = lit ''system'', content = JStr (lit ''be brief'')\<rparr>,
        \<lparr>role = lit ''user'', content = JStr (lit ''hi there'')\<rparr>,
        \<lparr>role = lit ''system'', content = JStr []\<rparr>]) (lit ''system'') \<noteq> Some (JStr [])"
  by (simp add: anthropic_payload_def setitem_def)

section \<open>A failure status of the HTTP layer\<close>

text \<open>
  C5. For every provider family and every transcript, when the HTTP layer answers with a
  status that \<open>raise_for_status\<close> reports (400 to 599), \<open>get_response\<close> ends with the
  HTTP error, whatever the body of the response is, parseable or not.
\<close>

theorem http_error_before_parsing:
  assumes "\<forall>request. post request = Inr response"
    and "400 \<le> status_code response" and "status_code response < 600"
  shows "fst (get_openai_compatible_response self post msgs reqs) = Inl (HTTPError (status_code response))
    \<and> fst (get_anthropic_response self post msgs reqs) = Inl (HTTPError (status_code response))
    \<and> fst (get_google_response self post py_repr msgs reqs) = Inl (HTTPError (status_code response))
    \<and> fst (get_huggingface_response self post py_repr msgs reqs) = Inl (HTTPError (status_code response))
    \<and> fst (get_response self post py_repr msgs reqs) = Inl (HTTPError (status_code response))"
  using assms
  by (simp add: get_response_def get_openai_compatible_response_def get_anthropic_response_def
      get_google_response_def get_huggingface_response_def requests_post_def
      checked_json_http_error)

theorem http_error_before_parsing_witness:
  "400 \<le> status_code \<lparr>status_code = 500, json_body = None\<rparr>
   \<and> status_code \<lparr>status_code = 500, json_body = None\<rparr> < 600
   \<and> fst (get_response
            \<lparr>name = lit ''HuggingFace'', env_key = lit ''HUGGINGFACE_API_KEY'',
             api_url = lit ''https://api-inference.huggingface.co/models/'',
             model = lit ''mistralai/Mistral-7B-Instruct-v0.2'', api_key = lit ''hf_k''\<rparr>
            (\<lambda>request. Inr \<lparr>status_code = 500, json_body = None\<rparr>) (\<lambda>v. [])
            [\<lparr>role = lit ''user'', content = JStr (lit ''hi there'')\<rparr>] [])
       = Inl (HTTPError 500)"
  using http_error_before_parsing
    [where post = "\<lambda>request. Inr \<lparr>status_code = 500, json_body = None\<rparr>"
       and response = "\<lparr>status_code = 500, json_body = None\<rparr>"
       and self = "\<lparr>name = lit ''HuggingFace'', env_key = lit ''HUGGINGFACE_API_KEY'',
             api_url = lit ''https://api-inference.huggingface.co/models/'',
             model = lit ''mistralai/Mistral-7B-Instruct-v0.2'', api_key = lit ''hf_k''\<rparr>"
       and py_repr = "\<lambda>v. []"
       and msgs = "[\<lparr>role = lit ''user'', content = JStr (lit ''hi there'')\<rparr>]"
       and reqs = "[]"]
  by simp

section \<open>The reply of a Google response\<close>

lemma google_error_object:
  assumes "google_reply_path (JObj kvs) = Inl e" and "e = KeyError \<or> e = IndexError"
    and "map_of kvs (lit ''error'') = Some (JObj ekvs)"
  shows "google_extract py_repr (JObj kvs) =
           Inl (Exception (lit ''Google API Error: '' @
                  py_str py_repr (case map_of ekvs (lit ''message'') of
                                    Some m \<Rightarrow> m | None \<Rightarrow> JStr (py_repr (JObj ekvs)))))"
proof -
  have "(lit ''error'') \<in> fst ` set kvs"
    using assms(3) by (metis domI dom_map_of_conv_image_fst)
  then show ?thesis
    using assms by (auto simp: google_extract_def split: option.splits)
qed

lemma google_unexpected_format:
  assumes "google_reply_path (JObj kvs) = Inl e" and "e = KeyError \<or> e = IndexError"
    and "map_of kvs (lit ''error'') = None"
  shows "google_extract py_repr (JObj kvs) =
           Inl (Exception (lit ''Unexpected response format: '' @ py_repr (JObj kvs)))"
proof -
  have "(lit ''error'') \<notin> fst ` set kvs"
    using assms(3) by (simp add: map_of_eq_None_iff)
  then show ?thesis
    using assms by (auto simp: google_extract_def)
qed

lemma google_errors_distinct:
  "Exception (lit ''Google API Error: '' @ x) \<noteq> Exception (lit ''Unexpected response format: '' @ y)"
  by simp

text \<open>
  C7 does not hold of the code. Where the reply position is missing through a key that is
  not there or a list that is empty, the two errors above are raised and differ
  (\<open>google_error_object\<close>, \<open>google_unexpected_format\<close>, \<open>google_errors_distinct\<close>). Where
  it is missing through a value of another type, the lookup raises TypeError, which the
  handler does not catch: a successful response whose data is
  \<open>{"candidates": null, "error": {"message": "X"}}\<close> and one whose data is
  \<open>{"candidates": null}\<close> both end in the same TypeError, the first without the provider's
  message.
\<close>

theorem google_type_error_uncaught:
  "fst (get_response
          \<lparr>name = lit ''Google (Gemini)'', env_key = lit ''GOOGLE_API_KEY'',
           api_url = lit ''https://generativelanguage.googleapis.com/v1beta/models/'',
           model = lit ''gemini-2.5-pro'', api_key = lit ''g-1''\<rparr>
          (\<lambda>request. Inr \<lparr>status_code = 200,
             json_body = Some (JObj [(lit ''candidates'', JNull),
                                     (lit ''error'', JObj [(lit ''message'', JStr (lit ''X''))])])\<rparr>)
          py_repr [\<lparr>role = lit ''user'', content = JStr (lit ''hi there'')\<rparr>] [])
     = Inl TypeError
   \<and> fst (get_response
          \<lparr>name = lit ''Google (Gemini)'', env_key = lit ''GOOGLE_API_KEY'',
           api_url = lit ''https://generativelanguage.googleapis.com/v1beta/models/'',
           model = lit ''gemini-2.5-pro'', api_key = lit ''g-1''\<rparr>
          (\<lambda>request. Inr \<lparr>status_code = 200,
             json_body = Some (JObj [(lit ''candidates'', JNull)])\<rparr>)
          py_repr [\<lparr>role = lit ''user'', content = JStr (lit ''hi there'')\<rparr>] [])
     = Inl TypeError"
  by (simp add: get_response_def get_google_response_def requests_post_def checked_json_def
      raise_for_status_def response_json_def google_extract_def google_reply_path_def)

section \<open>The reply of a HuggingFace response\<close>

lemma huggingface_fallback:
  assumes "\<forall>first rest. data = JArr (first # rest) \<longrightarrow> py_in (lit ''generated_text'') first = Inr False"
  shows "huggingface_extract py_repr data = Inr (JStr (py_str py_repr data))"
  using assms by (auto simp: huggingface_extract_def split: json.splits list.splits)

text \<open>
  C8 does not hold of the code. The data is returned as \<open>str(data)\<close> when it is not a
  non-empty list, and when the test \<open>"generated_text" in data[0]\<close> is false
  (\<open>huggingface_fallback\<close>). When the first element is a number, a boolean or \<open>None\<close>, the
  test itself raises TypeError: a successful response whose data is the list
  \<open>[0.5, 0.25]\<close> ends in TypeError, not in the text of the data.
\<close>

theorem huggingface_type_error:
  "fst (get_response
          \<lparr>name = lit ''HuggingFace'', env_key = lit ''HUGGINGFACE_API_KEY'',
           api_url = lit ''https://api-inference.huggingface.co/models/'',
           model = lit ''sentence-transformers/all-MiniLM-L6-v2'', api_key = lit ''hf_k''\<rparr>
          (\<lambda>request. Inr \<lparr>status_code = 200,
             json_body = Some (JArr [JNum (1 / 2), JNum (1 / 4)])\<rparr>)
          py_repr [\<lparr>role = lit ''user'', content = JStr (lit ''hi there'')\<rparr>] [])
     = Inl TypeError"
  by (simp add: get_response_def get_huggingface_response_def requests_post_def checked_json_def
      raise_for_status_def response_json_def huggingface_extract_def)

section \<open>Removing the credential of the active provider\<close>

lemma map_of_unset_key_same: "map_of (unset_key kvs k) k = None"
  by (induction kvs) (auto simp: unset_key_def)

lemma map_of_unset_key_other:
  "map_of kvs k = None \<Longrightarrow> map_of (unset_key kvs k') k = None"
  by (induction kvs) (auto simp: unset_key_def split: if_splits)

text \<open>
  In the file the two markers are cleared, and a process started afterwards finds no
  active provider.
\<close>

lemma delete_clears_file_markers:
  assumes "delete_api_key st a = Inr st'"
    and "ans_choice a \<noteq> (lit ''0'')" and "ans_confirm a"
    and "map_of (get_saved_providers (environ st)) (ans_choice a) = Some provider_id"
    and "environ st (lit ''ACTIVE_PROVIDER'') = Some provider_id"
  shows "map_of (dotenv_file st') (lit ''ACTIVE_PROVIDER'') = None
       \<and> map_of (dotenv_file st') (lit ''ACTIVE_PROVIDER_NAME'') = None"
proof -
  have ne: "get_saved_providers (environ st) \<noteq> []"
    using assms(4) by auto
  show ?thesis
    using assms ne
    by (auto simp: delete_api_key_def Let_def map_of_unset_key_same map_of_unset_key_other
        split: option.splits)
qed

lemma map_of_rev_None: "map_of kvs k = None \<Longrightarrow> map_of (rev kvs) k = None"
  by (simp add: map_of_eq_None_iff)

lemma fresh_process_no_provider:
  assumes "map_of kvs (lit ''ACTIVE_PROVIDER'') = None"
  shows "get_active_provider (load_dotenv False kvs Map.empty) = None"
  using map_of_rev_None [OF assms]
  by (simp add: get_active_provider_def load_dotenv_def)

text \<open>The environment of the running process is never written by \<open>delete_api_key\<close>.\<close>

lemma delete_keeps_environ:
  "delete_api_key st a = Inr st' \<Longrightarrow> environ st' = environ st"
  by (auto simp: delete_api_key_def Let_def split: if_splits option.splits)

lemma load_dotenv_empty: "load_dotenv override [] e = e"
  by (simp add: load_dotenv_def)

lemma saved_providers_openai:
  "get_saved_providers [(lit ''OPENAI_API_KEY'') \<mapsto> (lit ''sk-1''), (lit ''OPENAI_MODEL'') \<mapsto> (lit ''gpt-4o''),
                 (lit ''ACTIVE_PROVIDER'') \<mapsto> (lit ''3''), (lit ''ACTIVE_PROVIDER_NAME'') \<mapsto> (lit ''OpenAI'')] = [(lit ''1'', lit ''3'')]"
  by (simp add: get_saved_providers_def LLM_PROVIDERS_def truthy_def)

lemma delete_openai:
  "delete_api_key
     \<lparr>dotenv_file = [(lit ''OPENAI_API_KEY'', lit ''sk-1''), (lit ''OPENAI_MODEL'', lit ''gpt-4o''),
                     (lit ''ACTIVE_PROVIDER'', lit ''3''), (lit ''ACTIVE_PROVIDER_NAME'', lit ''OpenAI'')],
      environ = [(lit ''OPENAI_API_KEY'') \<mapsto> (lit ''sk-1''), (lit ''OPENAI_MODEL'') \<mapsto> (lit ''gpt-4o''),
                 (lit ''ACTIVE_PROVIDER'') \<mapsto> (lit ''3''), (lit ''ACTIVE_PROVIDER_NAME'') \<mapsto> (lit ''OpenAI'')]\<rparr>
     \<lparr>ans_choice = lit ''1'', ans_overwrite = False, ans_api_key = [], ans_model_name = [],
      ans_switch = False, ans_confirm = True\<rparr>
   = Inr \<lparr>dotenv_file = [],
          environ = [(lit ''OPENAI_API_KEY'') \<mapsto> (lit ''sk-1''), (lit ''OPENAI_MODEL'') \<mapsto> (lit ''gpt-4o''),
                 (lit ''ACTIVE_PROVIDER'') \<mapsto> (lit ''3''), (lit ''ACTIVE_PROVIDER_NAME'') \<mapsto> (lit ''OpenAI'')]\<rparr>"
  using saved_providers_openai
  by (simp add: delete_api_key_def Let_def LLM_PROVIDERS_def unset_key_def model_key_of_def)

lemma active_openai:
  "get_active_provider [(lit ''OPENAI_API_KEY'') \<mapsto> (lit ''sk-1''), (lit ''OPENAI_MODEL'') \<mapsto> (lit ''gpt-4o''),
                 (lit ''ACTIVE_PROVIDER'') \<mapsto> (lit ''3''), (lit ''ACTIVE_PROVIDER_NAME'') \<mapsto> (lit ''OpenAI'')]
   = Some \<lparr>name = lit ''OpenAI'', env_key = lit ''OPENAI_API_KEY'',
           api_url = lit ''https://api.openai.com/v1/chat/completions'',
           model = lit ''gpt-4o'', api_key = lit ''sk-1''\<rparr>"
  by (simp add: get_active_provider_def LLM_PROVIDERS_def Let_def truthy_def model_key_of_def)

text \<open>
  C6 does not hold of the code. With OpenAI stored and active, \<open>delete_api_key\<close> on it
  empties the file, markers included, but the environment of the process keeps the four
  variables: \<open>get_active_provider\<close> afterwards still returns the OpenAI configuration,
  also after the \<open>load_dotenv(override=True)\<close> of the reload.
\<close>

theorem delete_active_provider_still_resolves:
  "delete_api_key
     \<lparr>dotenv_file = [(lit ''OPENAI_API_KEY'', lit ''sk-1''), (lit ''OPENAI_MODEL'', lit ''gpt-4o''),
                     (lit ''ACTIVE_PROVIDER'', lit ''3''), (lit ''ACTIVE_PROVIDER_NAME'', lit ''OpenAI'')],
      environ = [(lit ''OPENAI_API_KEY'') \<mapsto> (lit ''sk-1''), (lit ''OPENAI_MODEL'') \<mapsto> (lit ''gpt-4o''),
                 (lit ''ACTIVE_PROVIDER'') \<mapsto> (lit ''3''), (lit ''ACTIVE_PROVIDER_NAME'') \<mapsto> (lit ''OpenAI'')]\<rparr>
     \<lparr>ans_choice = lit ''1'', ans_overwrite = False, ans_api_key = [], ans_model_name = [],
      ans_switch = False, ans_confirm = True\<rparr>
   = Inr \<lparr>dotenv_file = [],
          environ = [(lit ''OPENAI_API_KEY'') \<mapsto> (lit ''sk-1''), (lit ''OPENAI_MODEL'') \<mapsto> (lit ''gpt-4o''),
                 (lit ''ACTIVE_PROVIDER'') \<mapsto> (lit ''3''), (lit ''ACTIVE_PROVIDER_NAME'') \<mapsto> (lit ''OpenAI'')]\<rparr>
   \<and> get_active_provider
        (load_dotenv True []
           [(lit ''OPENAI_API_KEY'') \<mapsto> (lit ''sk-1''), (lit ''OPENAI_MODEL'') \<mapsto> (lit ''gpt-4o''),
                 (lit ''ACTIVE_PROVIDER'') \<mapsto> (lit ''3''), (lit ''ACTIVE_PROVIDER_NAME'') \<mapsto> (lit ''OpenAI'')])
     = Some \<lparr>name = lit ''OpenAI'', env_key = lit ''OPENAI_API_KEY'',
             api_url = lit ''https://api.openai.com/v1/chat/completions'',
             model = lit ''gpt-4o'', api_key = lit ''sk-1''\<rparr>"
  using delete_openai active_openai by (simp add: load_dotenv_empty)

section \<open>The chat loop\<close>

lemma not_space_slash: "\<not> py_isspace 0x2F"
  by (simp add: py_isspace_def)

lemma strip_keeps_first:
  assumes "\<not> py_isspace c"
  shows "\<exists>w. py_strip (c # t) = c # w"
proof -
  have "\<exists>zs. dropWhile py_isspace (rev t @ [c]) = zs @ [c]"
  proof (cases "\<forall>x \<in> set (rev t). py_isspace x")
    case True
    then have "dropWhile py_isspace (rev t @ [c]) = [] @ [c]"
      using assms by (simp add: dropWhile_append)
    then show ?thesis by blast
  next
    case False
    then have "dropWhile py_isspace (rev t @ [c]) = dropWhile py_isspace (rev t) @ [c]"
      by (simp add: dropWhile_append)
    then show ?thesis by blast
  qed
  then obtain zs where zs: "dropWhile py_isspace (rev t @ [c]) = zs @ [c]"
    by blast
  have "py_strip (c # t) = rev (dropWhile py_isspace (rev t @ [c]))"
    using assms by (simp add: py_strip_def)
  also have "\<dots> = c # rev zs"
    by (simp add: zs)
  finally show ?thesis by blast
qed

lemma slash_not_canned:
  assumes "py_startswith lowered (lit ''/'')"
  shows "map_of CUSTOM_REPLIES (py_strip lowered) = None"
proof -
  from assms obtain t where u: "lowered = 0x2F # t"
    by (cases lowered) auto
  obtain w where "py_strip lowered = 0x2F # w"
    using strip_keeps_first [OF not_space_slash, of t] by (auto simp: u)
  then show ?thesis
    by (simp add: CUSTOM_REPLIES_def)
qed

text \<open>
  C9. Of \<open>str.lower()\<close> the proof uses one fact: a text that starts with \<open>/\<close> is
  lower-cased to a text that starts with \<open>/\<close>. Then, for every input whose lower-cased,
  trimmed form is a key of the canned-reply table, the turn hands the canned reply to the
  console and leaves the state of the loop as it was: the transcript has neither the input
  nor the reply, and no request is added to the requests sent.
\<close>

theorem canned_reply_leaves_state:
  assumes "\<forall>t. py_startswith (str_lower l (0x2F # t)) (lit ''/'')"
    and "map_of CUSTOM_REPLIES (py_strip (str_lower l user_input)) = Some reply"
  shows "main_step l s user_input a rand post py_repr
           = Continue s [Print ([0x0A] @ lit ''[bold purple]AI Assistant[/bold purple]''),
                         Markdown_panel reply]"
proof -
  have "\<not> py_startswith user_input (lit ''/'')"
  proof
    assume "py_startswith user_input (lit ''/'')"
    then obtain t where "user_input = 0x2F # t"
      by (cases user_input) auto
    with assms(1) have "py_startswith (str_lower l user_input) (lit ''/'')"
      by blast
    from slash_not_canned [OF this] assms(2) show False
      by simp
  qed
  then show ?thesis
    using assms(2) by (simp add: main_step_def format_ai_response_def Let_def)
qed

theorem canned_reply_leaves_state_witness:
  "(let l = \<lparr>str_lower = map (\<lambda>c. if 0x41 \<le> c \<and> c \<le> 0x5A then c + 0x20 else c),
          str_capitalize = (\<lambda>t. t), exception_str = (\<lambda>e. []),
          markup_error = py_substring (lit ''[/INST]''),
          markdown_error = (\<lambda>v. TypeError), history_error = (\<lambda>v. TypeError)\<rparr>; s = \<lparr>chat_history = [\<lparr>role = lit ''user'', content = JStr (lit ''hi there'')\<rparr>,
                          \<lparr>role = lit ''assistant'', content = JStr (lit ''hello'')\<rparr>],
          client = Some \<lparr>name = lit ''OpenAI'', env_key = lit ''OPENAI_API_KEY'',
                         api_url = lit ''https://api.openai.com/v1/chat/completions'',
                         model = lit ''gpt-3.5-turbo'', api_key = lit ''sk-1''\<rparr>,
          env = \<lparr>dotenv_file = [], environ = Map.empty\<rparr>, sent = []\<rparr>
    in (\<forall>t. py_startswith (str_lower l (0x2F # t)) (lit ''/''))
       \<and> map_of CUSTOM_REPLIES (py_strip (str_lower l (lit ''  Hello ''))) = Some (lit ''Hello! Main aapki madad ke liye taiyaar hu. Kya main aapki koi madad kar sakta hu?'')
       \<and> main_step l s (lit ''  Hello '') \<lparr>ans_choice = lit ''0'', ans_overwrite = False, ans_api_key = [], ans_model_name = [],
          ans_switch = False, ans_confirm = False\<rparr> 0 (\<lambda>request. Inl ConnectionError) (\<lambda>v. [])
         = Continue s [Print ([0x0A] @ lit ''[bold purple]AI Assistant[/bold purple]''),
                       Markdown_panel (lit ''Hello! Main aapki madad ke liye taiyaar hu. Kya main aapki koi madad kar sakta hu?'')])"
proof -
  let ?l = "\<lparr>str_lower = map (\<lambda>c. if 0x41 \<le> c \<and> c \<le> 0x5A then c + 0x20 else c),
          str_capitalize = (\<lambda>t. t), exception_str = (\<lambda>e. []),
          markup_error = py_substring (lit ''[/INST]''),
          markdown_error = (\<lambda>v. TypeError), history_error = (\<lambda>v. TypeError)\<rparr>"
  have h1: "\<forall>t. py_startswith (str_lower ?l (0x2F # t)) (lit ''/'')"
    by simp
  have h2: "map_of CUSTOM_REPLIES (py_strip (str_lower ?l (lit ''  Hello ''))) = Some (lit ''Hello! Main aapki madad ke liye taiyaar hu. Kya main aapki koi madad kar sakta hu?'')"
    by (simp add: CUSTOM_REPLIES_def py_strip_def py_isspace_def)
  show ?thesis
    using h1 h2 canned_reply_leaves_state [OF h1 h2] by (simp add: Let_def)
qed

text \<open>
  When the print of the error succeeds, the failed turn is rolled back.
\<close>

lemma rollback_when_printed:
  assumes "\<not> py_startswith user_input (lit ''/'')"
    and "map_of CUSTOM_REPLIES (py_strip (str_lower l user_input)) = None"
    and "client s = Some c"
    and "fst (get_response c post py_repr
                (chat_history s @ [\<lparr>role = lit ''user'', content = JStr user_input\<rparr>]) (sent s))
           = Inl e"
    and "\<not> markup_error l ([0x0A] @ lit ''[bold red]Error:[/bold red] '' @ py_exception_str l e)"
  shows "\<exists>s'. main_step l s user_input a rand post py_repr
                 = Continue s' [Print ([0x0A] @ lit ''[bold red]Error:[/bold red] ''
                                       @ py_exception_str l e)]
           \<and> chat_history s' = chat_history s"
proof -
  obtain sent' where
    "get_response c post py_repr
       (chat_history s @ [\<lparr>role = lit ''user'', content = JStr user_input\<rparr>]) (sent s)
       = (Inl e, sent')"
    using assms(4) by (metis prod.collapse)
  then show ?thesis
    using assms(1-3,5) by (simp add: main_step_def except_handler_def Let_def)
qed

text \<open>
  C2 does not hold of the code. The handler prints the text of the exception as console
  markup before it removes the user message. When \<open>rich\<close> refuses that text the print
  raises inside the handler: the message is not removed and the exception ends \<open>main\<close>.
  So it is for a Google response with status 200 and the data
  \<open>{"error": {"message": "see [/INST] token"}}\<close>: the adapter raises
  \<open>Google API Error: see [/INST] token\<close>, the closing tag \<open>[/INST]\<close> matches no open tag,
  and the turn ends in \<open>MarkupError\<close> with the user message still in the transcript.
\<close>

theorem rollback_lost_on_markup_error:
  assumes "str_lower l (lit ''what is 2+2'') = lit ''what is 2+2''"
    and "markup_error l ([0x0A] @ lit ''[bold red]Error:[/bold red] ''
                         @ lit ''Google API Error: see [/INST] token'')"
  shows "\<exists>s'. main_step l
           \<lparr>chat_history = [\<lparr>role = lit ''user'', content = JStr (lit ''hi there'')\<rparr>,
                          \<lparr>role = lit ''assistant'', content = JStr (lit ''hello'')\<rparr>],
          client = Some \<lparr>name = lit ''Google (Gemini)'', env_key = lit ''GOOGLE_API_KEY'',
                         api_url = lit ''https://generativelanguage.googleapis.com/v1beta/models/'',
                         model = lit ''gemini-2.5-pro'', api_key = lit ''g-1''\<rparr>,
          env = \<lparr>dotenv_file = [], environ = Map.empty\<rparr>, sent = []\<rparr>
           (lit ''what is 2+2'') a rand
           (\<lambda>request. Inr \<lparr>status_code = 200,
             json_body = Some (JObj [(lit ''error'',
                                      JObj [(lit ''message'', JStr (lit ''see [/INST] token''))])])\<rparr>)
           py_repr
         = Uncaught s' MarkupError
       \<and> chat_history s'
         = [\<lparr>role = lit ''user'', content = JStr (lit ''hi there'')\<rparr>,
                          \<lparr>role = lit ''assistant'', content = JStr (lit ''hello'')\<rparr>] @ [\<lparr>role = lit ''user'', content = JStr (lit ''what is 2+2'')\<rparr>]"
proof -
  have canned: "map_of CUSTOM_REPLIES (py_strip (lit ''what is 2+2'')) = None"
    by (simp add: CUSTOM_REPLIES_def py_strip_def py_isspace_def)
  have raised: "fst (get_response \<lparr>name = lit ''Google (Gemini)'', env_key = lit ''GOOGLE_API_KEY'',
                         api_url = lit ''https://generativelanguage.googleapis.com/v1beta/models/'',
                         model = lit ''gemini-2.5-pro'', api_key = lit ''g-1''\<rparr>
          (\<lambda>request. Inr \<lparr>status_code = 200,
             json_body = Some (JObj [(lit ''error'',
                                      JObj [(lit ''message'', JStr (lit ''see [/INST] token''))])])\<rparr>)
          py_repr
          ([\<lparr>role = lit ''user'', content = JStr (lit ''hi there'')\<rparr>,
                          \<lparr>role = lit ''assistant'', content = JStr (lit ''hello'')\<rparr>] @ [\<lparr>role = lit ''user'', content = JStr (lit ''what is 2+2'')\<rparr>]) [])
        = Inl (Exception (lit ''Google API Error: see [/INST] token''))"
    by (simp add: get_response_def get_google_response_def requests_post_def checked_json_def
        raise_for_status_def response_json_def google_extract_def google_reply_path_def)
  then obtain sent' where call: "get_response \<lparr>name = lit ''Google (Gemini)'', env_key = lit ''GOOGLE_API_KEY'',
                         api_url = lit ''https://generativelanguage.googleapis.com/v1beta/models/'',
                         model = lit ''gemini-2.5-pro'', api_key = lit ''g-1''\<rparr>
          (\<lambda>request. Inr \<lparr>status_code = 200,
             json_body = Some (JObj [(lit ''error'',
                                      JObj [(lit ''message'', JStr (lit ''see [/INST] token''))])])\<rparr>)
          py_repr
          ([\<lparr>role = lit ''user'', content = JStr (lit ''hi there'')\<rparr>,
                          \<lparr>role = lit ''assistant'', content = JStr (lit ''hello'')\<rparr>] @ [\<lparr>role = lit ''user'', content = JStr (lit ''what is 2+2'')\<rparr>]) []
        = (Inl (Exception (lit ''Google API Error: see [/INST] token'')), sent')"
    by (metis prod.collapse)
  show ?thesis
    using assms canned call by (simp add: main_step_def except_handler_def Let_def)
qed

theorem rollback_lost_on_markup_error_witness:
  "(let l = \<lparr>str_lower = map (\<lambda>c. if 0x41 \<le> c \<and> c \<le> 0x5A then c + 0x20 else c),
          str_capitalize = (\<lambda>t. t), exception_str = (\<lambda>e. []),
          markup_error = py_substring (lit ''[/INST]''),
          markdown_error = (\<lambda>v. TypeError), history_error = (\<lambda>v. TypeError)\<rparr>
    in str_lower l (lit ''what is 2+2'') = lit ''what is 2+2''
       \<and> markup_error l ([0x0A] @ lit ''[bold red]Error:[/bold red] ''
                          @ lit ''Google API Error: see [/INST] token'')
       \<and> (\<exists>s'. main_step l
              \<lparr>chat_history = [\<lparr>role = lit ''user'', content = JStr (lit ''hi there'')\<rparr>,
                          \<lparr>role = lit ''assistant'', content = JStr (lit ''hello'')\<rparr>],
          client = Some \<lparr>name = lit ''Google (Gemini)'', env_key = lit ''GOOGLE_API_KEY'',
                         api_url = lit ''https://generativelanguage.googleapis.com/v1beta/models/'',
                         model = lit ''gemini-2.5-pro'', api_key = lit ''g-1''\<rparr>,
          env = \<lparr>dotenv_file = [], environ = Map.empty\<rparr>, sent = []\<rparr>
              (lit ''what is 2+2'') \<lparr>ans_choice = lit ''0'', ans_overwrite = False, ans_api_key = [], ans_model_name = [],
          ans_switch = False, ans_confirm = False\<rparr> 0
              (\<lambda>request. Inr \<lparr>status_code = 200,
             json_body = Some (JObj [(lit ''error'',
                                      JObj [(lit ''message'', JStr (lit ''see [/INST] token''))])])\<rparr>)
              (\<lambda>v. [])
            = Uncaught s' MarkupError
          \<and> chat_history s'
            = [\<lparr>role = lit ''user'', content = JStr (lit ''hi there'')\<rparr>,
                          \<lparr>role = lit ''assistant'', content = JStr (lit ''hello'')\<rparr>] @ [\<lparr>role = lit ''user'', content = JStr (lit ''what is 2+2'')\<rparr>]))"
proof -
  let ?l = "\<lparr>str_lower = map (\<lambda>c. if 0x41 \<le> c \<and> c \<le> 0x5A then c + 0x20 else c),
          str_capitalize = (\<lambda>t. t), exception_str = (\<lambda>e. []),
          markup_error = py_substring (lit ''[/INST]''),
          markdown_error = (\<lambda>v. TypeError), history_error = (\<lambda>v. TypeError)\<rparr>"
  have h1: "str_lower ?l (lit ''what is 2+2'') = lit ''what is 2+2''"
    by simp
  have h2: "markup_error ?l ([0x0A] @ lit ''[bold red]Error:[/bold red] ''
                          @ lit ''Google API Error: see [/INST] token'')"
    by simp
  show ?thesis
    using h1 h2 rollback_lost_on_markup_error [OF h1 h2, of "\<lparr>ans_choice = lit ''0'', ans_overwrite = False, ans_api_key = [], ans_model_name = [],
          ans_switch = False, ans_confirm = False\<rparr>" 0 "\<lambda>v. []"]
    by (simp add: Let_def)
qed

end
